theory Spec2Isabelle
  imports Complex_Main
begin

section \<open>Meta Agent Search: the archive of agent designs\<close>

text \<open>
  A shallow embedding of \<^verbatim>\<open>src/meta-agent-search.ts\<close>. A JavaScript \<^verbatim>\<open>number\<close> that holds
  a measurement (an accuracy, a confidence bound, a duration) is a \<^typ>\<open>real\<close>: the
  arithmetic of the source is read without rounding, and without the values
  \<^verbatim>\<open>NaN\<close> and \<^verbatim>\<open>Infinity\<close>. A number that only counts (\<^verbatim>\<open>evaluationCount\<close>, the
  generation counter, the millisecond clock) is a \<^typ>\<open>nat\<close>: the source only ever
  writes the literal 0 or a previous value plus one into it.

  Objects are held by reference in the source. The archive is an array that only
  grows and whose elements are never replaced, so a reference to a design of the
  archive is its position in the list, and mutating the object is updating the list
  at that position.
\<close>

subsection \<open>Types\<close>

text \<open>\<^verbatim>\<open>interface EvaluationResult\<close>.\<close>

record EvaluationResult =
  success :: bool
  accuracy :: real
  errors :: "string list"
  duration :: real

text \<open>The \<^verbatim>\<open>fitness\<close> object of a design.\<close>

record Fitness =
  accuracy :: real
  confidenceLow :: real
  confidenceHigh :: real
  evaluationCount :: nat

text \<open>\<^verbatim>\<open>generation: number | "initial"\<close>.\<close>

datatype generation_tag = Initial | Generation nat

text \<open>
  \<^verbatim>\<open>interface AgentDesign\<close>, in three layers, as the source builds it: the
  \<^verbatim>\<open>{name, thought, code}\<close> object that the language model returns, the
  \<^verbatim>\<open>Omit<AgentDesign, "id" | "createdAt" | "enabled">\<close> that \<^verbatim>\<open>add\<close> receives, and the
  full design. The field \<^verbatim>\<open>id\<close> is \<open>id'\<close> here, since \<open>id\<close> is the identity
  function of HOL.
\<close>

record Proposal =
  name :: string
  thought :: string
  code :: string

record Candidate = Proposal +
  generation :: generation_tag
  fitness :: Fitness

record AgentDesign = Candidate +
  id' :: string
  createdAt :: string
  enabled :: bool

text \<open>
  What lies at \<^verbatim>\<open>archivePath\<close>. \<^verbatim>\<open>load\<close> reads of the parsed document only
  \<^verbatim>\<open>data?.agents\<close> and whether that is an array, so a parsed document is given by
  these two observations: \<open>JsNull\<close> is the document \<^verbatim>\<open>null\<close> (where \<^verbatim>\<open>data?.agents\<close>
  short-circuits to \<^verbatim>\<open>undefined\<close>); any other value has a property \<^verbatim>\<open>agents\<close> that is
  absent (\<open>Undefined\<close>: a number, a string, an array, an object without the key),
  present but no array (\<open>NotAnArray\<close>), or an array, which TypeScript reads as
  \<^verbatim>\<open>AgentDesign[]\<close> without a check.
\<close>

datatype agents_property = Undefined | NotAnArray | AgentsArray "AgentDesign list"

datatype jsdata = JsNull | JsValue agents_property

datatype archive_file =
    NoFile \<comment> \<open>\<^verbatim>\<open>existsSync\<close> is false\<close>
  | Unparseable \<comment> \<open>\<^verbatim>\<open>readFileSync\<close> or \<^verbatim>\<open>JSON.parse\<close> throws\<close>
  | Parsed jsdata \<comment> \<open>\<^verbatim>\<open>JSON.parse\<close> returns this value\<close>

text \<open>
  \<^verbatim>\<open>class ArchiveManager\<close>: the in-memory array, and the file at its \<^verbatim>\<open>archivePath\<close>
  (the state that \<^verbatim>\<open>save\<close> and \<^verbatim>\<open>load\<close> share).
\<close>

record ArchiveManager =
  archive :: "AgentDesign list"
  archiveFile :: archive_file

text \<open>
  What the source lets through to its caller: an exception of \<^verbatim>\<open>mkdirSync\<close> or
  \<^verbatim>\<open>writeFileSync\<close> in \<^verbatim>\<open>save\<close>, and a rejection of the promise of
  \<^verbatim>\<open>evaluator.evaluate\<close>. Neither has a handler anywhere in the source.
\<close>

datatype error = WriteFailed | EvaluatorRejected

subsection \<open>Persisting\<close>

text \<open>
  \<^verbatim>\<open>save\<close> writes \<^verbatim>\<open>JSON.stringify({ agents: this.archive }, null, 2)\<close>. Here \<open>save\<close> is
  what a write that succeeds leaves: the file then holds a document whose \<^verbatim>\<open>agents\<close>
  field is the array. \<^verbatim>\<open>add\<close> and \<^verbatim>\<open>updateFitness\<close> are modelled for writes that
  succeed.
\<close>

definition save :: "ArchiveManager \<Rightarrow> ArchiveManager" where
  "save m = m\<lparr>archiveFile := Parsed (JsValue (AgentsArray (archive m)))\<rparr>"

text \<open>
  \<^verbatim>\<open>save\<close> with the outcome of its write as an input: \<open>writes\<close> says that
  \<^verbatim>\<open>mkdirSync\<close> and \<^verbatim>\<open>writeFileSync\<close> return. When one of them throws, \<^verbatim>\<open>save\<close> throws.
\<close>

definition saveOrThrow :: "bool \<Rightarrow> ArchiveManager \<Rightarrow> error + ArchiveManager" where
  "saveOrThrow writes m = (if writes then Inr (save m) else Inl WriteFailed)"

subsection \<open>The baseline designs\<close>

text \<open>
  The texts of \<^verbatim>\<open>INITIAL_ARCHIVE\<close>. A string literal of HOL holds neither a line
  break, a double quote nor a backslash, so these three are named and the texts are
  concatenations, one row for each line of the template literal (where the source
  writes \<^verbatim>\<open>\\n\<close>, the text holds a backslash and an \<^verbatim>\<open>n\<close>).
\<close>

definition nl :: string where
  "nl = [CHR 0x0A]"

definition dq :: string where
  "dq = [CHR 0x22]"

definition bs :: string where
  "bs = [CHR 0x5C]"

definition chainOfThoughtCode :: string where
  "chainOfThoughtCode = concat
    [nl,
     ''async function forward(task, context) {'', nl,
     ''  const instruction = '', dq, ''Please think step by step and then solve the task.'', dq, '';'', nl,
     ''  const response = await context.llm.complete({'', nl,
     ''    prompt: instruction + '', dq, bs, ''n'', bs, ''nTask: '', dq, '' + task.description,'', nl,
     ''    outputFields: ['', dq, ''thinking'', dq, '', '', dq, ''answer'', dq, '']'', nl,
     ''  });'', nl,
     ''  return response.answer;'', nl,
     ''}'']"

definition selfConsistencyCode :: string where
  "selfConsistencyCode = concat
    [nl,
     ''async function forward(task, context) {'', nl,
     ''  const instruction = '', dq, ''Think step by step and solve the task.'', dq, '';'', nl,
     ''  const responses = [];'', nl,
     nl,
     ''  // Generate 3 different reasoning paths'', nl,
     ''  for (let i = 0; i < 3; i++) {'', nl,
     ''    const response = await context.llm.complete({'', nl,
     ''      prompt: instruction + '', dq, bs, ''n'', bs, ''nTask: '', dq, '' + task.description,'', nl,
     ''      outputFields: ['', dq, ''answer'', dq, ''],'', nl,
     ''      temperature: 0.8'', nl,
     ''    });'', nl,
     ''    responses.push(response.answer);'', nl,
     ''  }'', nl,
     nl,
     ''  // Return most common answer'', nl,
     ''  const counts = {};'', nl,
     ''  for (const r of responses) {'', nl,
     ''    counts[r] = (counts[r] || 0) + 1;'', nl,
     ''  }'', nl,
     ''  return Object.entries(counts).sort((a, b) => b[1] - a[1])[0][0];'', nl,
     ''}'']"

definition reflexionCode :: string where
  "reflexionCode = concat
    [nl,
     ''async function forward(task, context) {'', nl,
     ''  // Initial attempt'', nl,
     ''  let response = await context.llm.complete({'', nl,
     ''    prompt: '', dq, ''Solve this task: '', dq, '' + task.description,'', nl,
     ''    outputFields: ['', dq, ''answer'', dq, '']'', nl,
     ''  });'', nl,
     nl,
     ''  // Self-critique'', nl,
     ''  const critique = await context.llm.complete({'', nl,
     ''    prompt: '', dq, ''Review this answer and identify any errors or improvements:'', bs, ''n'', dq, '' +'', nl,
     ''            '', dq, ''Task: '', dq, '' + task.description + '', dq, bs, ''n'', dq, '' +'', nl,
     ''            '', dq, ''Answer: '', dq, '' + response.answer,'', nl,
     ''    outputFields: ['', dq, ''critique'', dq, '', '', dq, ''improved_answer'', dq, '']'', nl,
     ''  });'', nl,
     nl,
     ''  return critique.improved_answer || response.answer;'', nl,
     ''}'']"

definition toolAugmentedCode :: string where
  "toolAugmentedCode = concat
    [nl,
     ''async function forward(task, context) {'', nl,
     ''  // Analyze if tools are needed'', nl,
     ''  const analysis = await context.llm.complete({'', nl,
     ''    prompt: '', dq, ''Analyze this task. Do you need external tools (search, calculate, code)?'', bs, ''n'', dq, '' +'', nl,
     ''            '', dq, ''Task: '', dq, '' + task.description,'', nl,
     ''    outputFields: ['', dq, ''needs_tools'', dq, '', '', dq, ''tool_type'', dq, '', '', dq, ''reasoning'', dq, '']'', nl,
     ''  });'', nl,
     nl,
     ''  if (analysis.needs_tools && context.tools[analysis.tool_type]) {'', nl,
     ''    const toolResult = await context.tools[analysis.tool_type](task);'', nl,
     ''    return await context.llm.complete({'', nl,
     ''      prompt: '', dq, ''Using this tool result, answer the task:'', bs, ''n'', dq, '' +'', nl,
     ''              '', dq, ''Task: '', dq, '' + task.description + '', dq, bs, ''n'', dq, '' +'', nl,
     ''              '', dq, ''Tool result: '', dq, '' + toolResult,'', nl,
     ''      outputFields: ['', dq, ''answer'', dq, '']'', nl,
     ''    }).then(r => r.answer);'', nl,
     ''  }'', nl,
     nl,
     ''  // Fallback to direct answer'', nl,
     ''  return await context.llm.complete({'', nl,
     ''    prompt: '', dq, ''Solve: '', dq, '' + task.description,'', nl,
     ''    outputFields: ['', dq, ''answer'', dq, '']'', nl,
     ''  }).then(r => r.answer);'', nl,
     ''}'']"

definition INITIAL_ARCHIVE :: "Candidate list" where
  "INITIAL_ARCHIVE =
    [\<lparr>name = ''Chain-of-Thought'',
      thought = ''Break down complex problems into step-by-step reasoning before answering.'',
      code = chainOfThoughtCode,
      generation = Initial,
      fitness = \<lparr>accuracy = 0.5, confidenceLow = 0.4, confidenceHigh = 0.6, evaluationCount = 0\<rparr>\<rparr>,
     \<lparr>name = ''Self-Consistency'',
      thought = ''Generate multiple reasoning paths and take majority vote for robustness.'',
      code = selfConsistencyCode,
      generation = Initial,
      fitness = \<lparr>accuracy = 0.55, confidenceLow = 0.45, confidenceHigh = 0.65, evaluationCount = 0\<rparr>\<rparr>,
     \<lparr>name = ''Reflexion'',
      thought = ''Iteratively refine answer through self-critique and improvement.'',
      code = reflexionCode,
      generation = Initial,
      fitness = \<lparr>accuracy = 0.58, confidenceLow = 0.48, confidenceHigh = 0.68, evaluationCount = 0\<rparr>\<rparr>,
     \<lparr>name = ''Tool-Augmented'',
      thought = ''Use external tools when appropriate to enhance reasoning.'',
      code = toolAugmentedCode,
      generation = Initial,
      fitness = \<lparr>accuracy = 0.52, confidenceLow = 0.42, confidenceHigh = 0.62, evaluationCount = 0\<rparr>\<rparr>]"

subsection \<open>Numbers in template literals\<close>

text \<open>The decimal digits of a natural number, as a template literal renders it.\<close>

fun showNat :: "nat \<Rightarrow> string" where
  "showNat n =
     (if n < 10 then [''0123456789'' ! n]
      else showNat (n div 10) @ [''0123456789'' ! (n mod 10)])"

declare showNat.simps [simp del]

fun showGeneration :: "generation_tag \<Rightarrow> string" where
  "showGeneration Initial = ''initial''"
| "showGeneration (Generation n) = showNat n"

subsection \<open>Loading, seeding and adding\<close>

text \<open>
  The clock is outside the program: the seeding is given the text that
  \<^verbatim>\<open>new Date().toISOString()\<close> returns while element \<open>i\<close> is mapped, and \<^verbatim>\<open>add\<close> is
  given what \<^verbatim>\<open>Date.now()\<close> and \<^verbatim>\<open>new Date().toISOString()\<close> return.
\<close>

text \<open>
  \<open>INITIAL_ARCHIVE\<close> is what the module-level array holds when the module is loaded.
  The spread \<^verbatim>\<open>{...a}\<close> of \<^verbatim>\<open>initializeWithBaseline\<close> copies the reference to
  \<^verbatim>\<open>a.fitness\<close>: the fitness object of a seeded design is the fitness object of the
  module-level element, and \<^verbatim>\<open>updateFitness\<close>, which assigns to the fields of that
  object, changes what a later seeding in the same process starts from. So the seeding
  is given \<open>shared\<close>, what the fitness object of element \<open>i\<close> holds when it runs. In a
  process that has updated no seeded design this is \<open>initialFitness\<close>. The names, the
  texts and the generation marker of the elements are never assigned to.
\<close>

definition initialFitness :: "nat \<Rightarrow> Fitness" where
  "initialFitness i = fitness (INITIAL_ARCHIVE ! i)"

text \<open>The array that \<^verbatim>\<open>INITIAL_ARCHIVE.map(...)\<close> builds.\<close>

definition baselineDesigns :: "(nat \<Rightarrow> Fitness) \<Rightarrow> (nat \<Rightarrow> string) \<Rightarrow> AgentDesign list" where
  "baselineDesigns shared isoNow =
     map (\<lambda>(i, a).
           \<lparr>name = name a, thought = thought a, code = code a,
            generation = generation a, fitness = shared i,
            id' = ''baseline-'' @ showNat i,
            createdAt = isoNow i,
            enabled = True\<rparr>)
         (enumerate 0 INITIAL_ARCHIVE)"

text \<open>
  The specification says of the constructor that it never raises to its caller, so
  \<^verbatim>\<open>initializeWithBaseline\<close>, \<^verbatim>\<open>load\<close> and the constructor carry the outcome of the write.
\<close>

definition initializeWithBaseline ::
    "bool \<Rightarrow> (nat \<Rightarrow> Fitness) \<Rightarrow> (nat \<Rightarrow> string) \<Rightarrow> ArchiveManager \<Rightarrow> error + ArchiveManager" where
  "initializeWithBaseline writes shared isoNow m =
     saveOrThrow writes (m\<lparr>archive := baselineDesigns shared isoNow\<rparr>)"

text \<open>\<^verbatim>\<open>data?.agents\<close>.\<close>

fun agentsOf :: "jsdata \<Rightarrow> agents_property" where
  "agentsOf JsNull = Undefined"
| "agentsOf (JsValue p) = p"

text \<open>\<^verbatim>\<open>Array.isArray(x) ? x : []\<close>.\<close>

fun arrayOrEmpty :: "agents_property \<Rightarrow> AgentDesign list" where
  "arrayOrEmpty (AgentsArray ds) = ds"
| "arrayOrEmpty NotAnArray = []"
| "arrayOrEmpty Undefined = []"

text \<open>
  \<^verbatim>\<open>load\<close>: the \<^verbatim>\<open>catch\<close> handles what \<^verbatim>\<open>readFileSync\<close> and \<^verbatim>\<open>JSON.parse\<close> throw, and
  what \<^verbatim>\<open>initializeWithBaseline\<close> throws inside the handler is not caught.
\<close>

definition load ::
    "bool \<Rightarrow> (nat \<Rightarrow> Fitness) \<Rightarrow> (nat \<Rightarrow> string) \<Rightarrow> ArchiveManager \<Rightarrow> error + ArchiveManager" where
  "load writes shared isoNow m =
     (case archiveFile m of
        Parsed data \<Rightarrow> Inr (m\<lparr>archive := arrayOrEmpty (agentsOf data)\<rparr>)
      | Unparseable \<Rightarrow> initializeWithBaseline writes shared isoNow m
      | NoFile \<Rightarrow> initializeWithBaseline writes shared isoNow m)"

text \<open>A clock that stands still, for running the program on concrete inputs.\<close>

definition epochClock :: "nat \<Rightarrow> string" where
  "epochClock i = ''1970-01-01T00:00:00.000Z''"

text \<open>The constructor: the field initialiser \<^verbatim>\<open>archive = []\<close>, then \<^verbatim>\<open>load\<close>.\<close>

definition newArchiveManager ::
    "bool \<Rightarrow> (nat \<Rightarrow> Fitness) \<Rightarrow> (nat \<Rightarrow> string) \<Rightarrow> archive_file \<Rightarrow> error + ArchiveManager" where
  "newArchiveManager writes shared isoNow file =
     load writes shared isoNow \<lparr>archive = [], archiveFile = file\<rparr>"

text \<open>
  \<^verbatim>\<open>add\<close> returns the object it pushed: the reference returned is the position of the
  new element.
\<close>

definition add :: "Candidate \<Rightarrow> nat \<Rightarrow> string \<Rightarrow> ArchiveManager \<Rightarrow> nat \<times> ArchiveManager" where
  "add agent dateNow isoNow m =
     (let full =
            \<lparr>name = name agent, thought = thought agent, code = code agent,
             generation = generation agent, fitness = fitness agent,
             id' = ''gen-'' @ showGeneration (generation agent) @ ''-'' @ showNat dateNow,
             createdAt = isoNow,
             enabled = True\<rparr>;
          m = m\<lparr>archive := archive m @ [full]\<rparr>
      in (length (archive m) - 1, save m))"

definition getAll :: "ArchiveManager \<Rightarrow> AgentDesign list" where
  "getAll m = archive m"

definition getEnabled :: "ArchiveManager \<Rightarrow> AgentDesign list" where
  "getEnabled m = filter enabled (archive m)"

text \<open>
  \<^verbatim>\<open>sort((a, b) => b.fitness.accuracy - a.fitness.accuracy)\<close> is a stable sort by
  descending accuracy; it sorts the fresh array that \<^verbatim>\<open>filter\<close> returned.
\<close>

definition getTopPerforming :: "nat \<Rightarrow> ArchiveManager \<Rightarrow> AgentDesign list" where
  "getTopPerforming n m = take n (sort_key (\<lambda>a. - accuracy (fitness a)) (getEnabled m))"

subsection \<open>Fitness updates\<close>

text \<open>\<^verbatim>\<open>Array.prototype.find\<close>, returning the position of the element found.\<close>

fun findIndex :: "('a \<Rightarrow> bool) \<Rightarrow> 'a list \<Rightarrow> nat option" where
  "findIndex P [] = None"
| "findIndex P (x # xs) = (if P x then Some 0 else map_option Suc (findIndex P xs))"

text \<open>
  The body of \<^verbatim>\<open>updateFitness\<close> after the lookup, statement by statement, on the
  design found. \<^verbatim>\<open>Math.sqrt\<close> of a negative number is \<^verbatim>\<open>NaN\<close> in the source, where
  \<open>sqrt\<close> has a real value: the two bounds of the model are those of the source where
  the variance is not negative, that is, where the new mean lies in \<open>[0, 1]\<close>.
\<close>

definition recordEvaluation :: "EvaluationResult \<Rightarrow> AgentDesign \<Rightarrow> AgentDesign" where
  "recordEvaluation result agent =
     (let oldCount = evaluationCount (fitness agent);
          newCount = oldCount + 1;
          agent = agent\<lparr>fitness := (fitness agent)\<lparr>Fitness.accuracy :=
                    (Fitness.accuracy (fitness agent) * real oldCount
                       + EvaluationResult.accuracy result) / real newCount\<rparr>\<rparr>;
          agent = agent\<lparr>fitness := (fitness agent)\<lparr>evaluationCount := newCount\<rparr>\<rparr>;
          variance = Fitness.accuracy (fitness agent) * (1 - Fitness.accuracy (fitness agent))
                       / real newCount;
          stdErr = sqrt variance;
          agent = agent\<lparr>fitness := (fitness agent)\<lparr>confidenceLow :=
                    max 0 (Fitness.accuracy (fitness agent) - 1.96 * stdErr)\<rparr>\<rparr>;
          agent = agent\<lparr>fitness := (fitness agent)\<lparr>confidenceHigh :=
                    min 1 (Fitness.accuracy (fitness agent) + 1.96 * stdErr)\<rparr>\<rparr>
      in if newCount \<ge> 5 \<and> Fitness.accuracy (fitness agent) < 0.3
         then agent\<lparr>enabled := False\<rparr>
         else agent)"

definition updateFitness :: "string \<Rightarrow> EvaluationResult \<Rightarrow> ArchiveManager \<Rightarrow> ArchiveManager" where
  "updateFitness ident result m =
     (case findIndex (\<lambda>a. id' a = ident) (archive m) of
        None \<Rightarrow> m
      | Some k \<Rightarrow>
          save (m\<lparr>archive := (archive m)[k := recordEvaluation result (archive m ! k)]\<rparr>))"

text \<open>A sequence of \<^verbatim>\<open>updateFitness\<close> calls on one id, in order.\<close>

definition updateFitnessAll :: "string \<Rightarrow> EvaluationResult list \<Rightarrow> ArchiveManager \<Rightarrow> ArchiveManager" where
  "updateFitnessAll ident results m = fold (updateFitness ident) results m"

section \<open>Meta Agent Search: generations and the search loop\<close>

text \<open>\<^verbatim>\<open>interface SearchConfig\<close>.\<close>

record SearchConfig =
  maxGenerations :: nat
  evaluationsPerAgent :: nat
  reflexionSteps :: nat
  minFitnessThreshold :: real

text \<open>
  The collaborators of a search, which the program only calls. A call of
  \<^verbatim>\<open>llm.completeJson\<close> either rejects (\<open>None\<close>) or resolves to a design; what it does
  may depend on everything that happened before, so its outcome is given for each
  call by the number of calls made before it (the prompt of the call is a function
  of that history and is not modelled). \<^verbatim>\<open>evaluator.evaluate\<close> is given the same way,
  with the code text it receives: it rejects (\<open>None\<close>) or resolves to a result. The
  clock readings \<^verbatim>\<open>Date.now()\<close> and
  \<^verbatim>\<open>new Date().toISOString()\<close> of the \<^verbatim>\<open>add\<close> of a generation are given by the
  number of that generation. The optional logger and progress callback are left out:
  where they are supplied they are taken to return.
\<close>

record World =
  completeJson :: "nat \<Rightarrow> Proposal option"
  evaluate :: "nat \<Rightarrow> string \<Rightarrow> EvaluationResult option"
  dateNow :: "nat \<Rightarrow> nat"
  isoNow :: "nat \<Rightarrow> string"

text \<open>
  \<^verbatim>\<open>class MetaAgentSearch\<close>: its fields \<^verbatim>\<open>archive\<close> (here \<open>manager\<close>),
  \<^verbatim>\<open>generation\<close> (here \<open>generationCounter\<close>) and \<^verbatim>\<open>config\<close>, and the numbers of
  calls made so far to the two collaborators.
\<close>

record MetaAgentSearch =
  manager :: ArchiveManager
  generationCounter :: nat
  config :: SearchConfig
  llmCalls :: nat
  evaluatorCalls :: nat

text \<open>
  One pass of the reflexion loop of \<^verbatim>\<open>runGeneration\<close>, on the current design and the
  number of oracle calls made: the \<^verbatim>\<open>catch\<close> keeps the current design.
\<close>

definition reflexionRound :: "World \<Rightarrow> nat \<Rightarrow> Proposal \<times> nat \<Rightarrow> Proposal \<times> nat" where
  "reflexionRound w i = (\<lambda>(design, calls).
     (case completeJson w calls of
        Some refined \<Rightarrow> (refined, calls + 1)
      | None \<Rightarrow> (design, calls + 1)))"

text \<open>\<^verbatim>\<open>for (let i = 0; i < this.config.reflexionSteps; i++)\<close>.\<close>

definition reflexion :: "World \<Rightarrow> nat \<Rightarrow> Proposal \<times> nat \<Rightarrow> Proposal \<times> nat" where
  "reflexion w steps start = fold (reflexionRound w) [0..<steps] start"

text \<open>
  \<^verbatim>\<open>runGeneration\<close> returns \<^verbatim>\<open>null\<close> (\<open>None\<close>) or the object that \<^verbatim>\<open>add\<close> returned (its
  position in the archive).
\<close>

definition runGeneration :: "World \<Rightarrow> MetaAgentSearch \<Rightarrow> nat option \<times> MetaAgentSearch" where
  "runGeneration w s =
     (let s = s\<lparr>generationCounter := generationCounter s + 1\<rparr> in
      case completeJson w (llmCalls s) of
        None \<Rightarrow> (None, s\<lparr>llmCalls := llmCalls s + 1\<rparr>)
      | Some design \<Rightarrow>
          (let (design, calls) = reflexion w (reflexionSteps (config s)) (design, llmCalls s + 1);
               (agent, m) =
                  add \<lparr>name = name design, thought = thought design, code = code design,
                       generation = Generation (generationCounter s),
                       fitness = \<lparr>accuracy = 0, confidenceLow = 0, confidenceHigh = 0,
                                  evaluationCount = 0\<rparr>\<rparr>
                      (dateNow w (generationCounter s)) (isoNow w (generationCounter s))
                      (manager s)
           in (Some agent, s\<lparr>llmCalls := calls, manager := m\<rparr>)))"





section \<open>Sequences of archive operations\<close>

text \<open>
  The public methods of \<^verbatim>\<open>ArchiveManager\<close>, as operations on one instance. The four
  readers return a value and leave the instance as it is: \<^verbatim>\<open>getEnabled\<close> filters into
  a fresh array, and \<^verbatim>\<open>getTopPerforming\<close> and \<^verbatim>\<open>buildPrompt\<close> sort that fresh array.
\<close>

datatype archive_op =
    Save
  | Add Candidate nat string
  | GetAll
  | GetEnabled
  | GetTopPerforming nat
  | UpdateFitness string EvaluationResult
  | BuildPrompt

fun perform :: "archive_op \<Rightarrow> ArchiveManager \<Rightarrow> ArchiveManager" where
  "perform Save m = save m"
| "perform (Add agent now stamp) m = snd (add agent now stamp m)"
| "perform GetAll m = m"
| "perform GetEnabled m = m"
| "perform (GetTopPerforming n) m = m"
| "perform (UpdateFitness ident result) m = updateFitness ident result m"
| "perform BuildPrompt m = m"

section \<open>What the search evaluates\<close>





section \<open>The archive as JavaScript values and as a JSON document\<close>

text \<open>
  So far the file is recorded as the parsed document it gives, and \<open>save\<close> as storing
  the array itself. What \<^verbatim>\<open>JSON.stringify\<close> writes for an array and what \<^verbatim>\<open>JSON.parse\<close>
  reads back is made explicit here, on the values of the array.
\<close>

subsection \<open>Numbers\<close>

text \<open>
  The definitions so far take the numbers of the program as reals. One operation of
  \<^verbatim>\<open>updateFitness\<close> leaves them on a real input: \<^verbatim>\<open>Math.sqrt\<close> of a negative number is
  \<^verbatim>\<open>NaN\<close>. Here a number is a real or \<^verbatim>\<open>NaN\<close>; arithmetic, \<^verbatim>\<open>Math.max\<close> and \<^verbatim>\<open>Math.min\<close>
  with a \<^verbatim>\<open>NaN\<close> operand give \<^verbatim>\<open>NaN\<close>. The rounding of doubles and the infinities stay
  out, as before; the only divisor is \<^verbatim>\<open>newCount\<close>, which is at least 1.
\<close>

datatype jsnumber = Finite real | NaN

definition arith :: "(real \<Rightarrow> real \<Rightarrow> real) \<Rightarrow> jsnumber \<Rightarrow> jsnumber \<Rightarrow> jsnumber" where
  "arith f a b = (case (a, b) of (Finite x, Finite y) \<Rightarrow> Finite (f x y) | _ \<Rightarrow> NaN)"

fun Math_sqrt :: "jsnumber \<Rightarrow> jsnumber" where
  "Math_sqrt (Finite x) = (if x < 0 then NaN else Finite (sqrt x))"
| "Math_sqrt NaN = NaN"

text \<open>The \<^verbatim>\<open>fitness\<close> object of a design, with such numbers.\<close>

record FitnessNumbers =
  accuracy' :: jsnumber
  confidenceLow' :: jsnumber
  confidenceHigh' :: jsnumber
  evaluationCount' :: nat

definition numbers :: "Fitness \<Rightarrow> FitnessNumbers" where
  "numbers f = \<lparr>accuracy' = Finite (Fitness.accuracy f), confidenceLow' = Finite (confidenceLow f),
                confidenceHigh' = Finite (confidenceHigh f),
                evaluationCount' = evaluationCount f\<rparr>"

text \<open>
  Lines 283 to 292 of \<^verbatim>\<open>updateFitness\<close>, statement by statement, on the fitness object
  of the design found and the \<^verbatim>\<open>result.accuracy\<close> observed.
\<close>

definition recordNumbers :: "jsnumber \<Rightarrow> FitnessNumbers \<Rightarrow> FitnessNumbers" where
  "recordNumbers observed f =
     (let oldCount = evaluationCount' f;
          newCount = oldCount + 1;
          f = f\<lparr>accuracy' :=
                 arith divide (arith plus (arith times (accuracy' f) (Finite (real oldCount))) observed)
                   (Finite (real newCount))\<rparr>;
          f = f\<lparr>evaluationCount' := newCount\<rparr>;
          variance = arith divide (arith times (accuracy' f) (arith minus (Finite 1) (accuracy' f)))
                       (Finite (real newCount));
          stdErr = Math_sqrt variance;
          f = f\<lparr>confidenceLow' :=
                 arith max (Finite 0) (arith minus (accuracy' f) (arith times (Finite 1.96) stdErr))\<rparr>;
          f = f\<lparr>confidenceHigh' :=
                 arith min (Finite 1) (arith plus (accuracy' f) (arith times (Finite 1.96) stdErr))\<rparr>
      in f)"

subsection \<open>Values and documents\<close>

text \<open>
  The values that the archive array can hold: what \<^verbatim>\<open>JSON.parse\<close> returns, and
  \<^verbatim>\<open>undefined\<close> and \<^verbatim>\<open>NaN\<close> besides. An object is the list of its own enumerable
  properties, in order, each key once.
\<close>

datatype jsvalue =
    JUndefined
  | JNull
  | JBoolean bool
  | JNumber jsnumber
  | JString string
  | JArray "jsvalue list"
  | JObject "(string \<times> jsvalue) list"

text \<open>
  A JSON document. A JSON text is identified with the document it denotes: the text
  that \<^verbatim>\<open>JSON.stringify\<close> produces for a document is taken to parse back to that
  document (for a number, the shortest digits that read back as the same double).
\<close>

datatype json =
    JsonNull
  | JsonBoolean bool
  | JsonNumber real
  | JsonString string
  | JsonArray "json list"
  | JsonObject "(string \<times> json) list"

text \<open>
  \<^verbatim>\<open>JSON.stringify\<close>, as the document written for a value, or \<open>None\<close> where it returns
  \<^verbatim>\<open>undefined\<close>. A number that is not finite is written as \<^verbatim>\<open>null\<close>; in an array
  \<^verbatim>\<open>undefined\<close> is written as \<^verbatim>\<open>null\<close>; a property whose value is \<^verbatim>\<open>undefined\<close> is left
  out.
\<close>

primrec JSON_stringify :: "jsvalue \<Rightarrow> json option" where
  "JSON_stringify JUndefined = None"
| "JSON_stringify JNull = Some JsonNull"
| "JSON_stringify (JBoolean b) = Some (JsonBoolean b)"
| "JSON_stringify (JNumber n) = Some (case n of Finite x \<Rightarrow> JsonNumber x | NaN \<Rightarrow> JsonNull)"
| "JSON_stringify (JString s) = Some (JsonString s)"
| "JSON_stringify (JArray vs) =
     Some (JsonArray (map (\<lambda>written. case written of Some j \<Rightarrow> j | None \<Rightarrow> JsonNull)
                       (map JSON_stringify vs)))"
| "JSON_stringify (JObject ps) =
     Some (JsonObject (List.map_filter (\<lambda>(k, written). map_option (Pair k) written)
                        (map (map_prod id JSON_stringify) ps)))"

text \<open>\<^verbatim>\<open>JSON.parse\<close>, on the document that the text denotes.\<close>

primrec JSON_parse :: "json \<Rightarrow> jsvalue" where
  "JSON_parse JsonNull = JNull"
| "JSON_parse (JsonBoolean b) = JBoolean b"
| "JSON_parse (JsonNumber x) = JNumber (Finite x)"
| "JSON_parse (JsonString s) = JString s"
| "JSON_parse (JsonArray js) = JArray (map JSON_parse js)"
| "JSON_parse (JsonObject ps) = JObject (map (map_prod id JSON_parse) ps)"

text \<open>
  \<^verbatim>\<open>v?.k\<close> for the keys that the program reads, none of which a primitive or an
  array has.
\<close>

definition property :: "string \<Rightarrow> jsvalue \<Rightarrow> jsvalue" where
  "property k v =
     (case v of
        JObject ps \<Rightarrow> (case map_of ps k of Some x \<Rightarrow> x | None \<Rightarrow> JUndefined)
      | _ \<Rightarrow> JUndefined)"

text \<open>
  The document that \<^verbatim>\<open>save\<close> writes for an archive array:
  \<^verbatim>\<open>JSON.stringify({ agents: this.archive }, null, 2)\<close>.
\<close>

definition savedDocument :: "jsvalue list \<Rightarrow> json option" where
  "savedDocument array = JSON_stringify (JObject [(''agents'', JArray array)])"

text \<open>
  The array that \<^verbatim>\<open>load\<close> assigns when the file exists and parses:
  \<^verbatim>\<open>Array.isArray(data?.agents) ? data.agents : []\<close>.
\<close>

definition loadedArchive :: "json \<Rightarrow> jsvalue list" where
  "loadedArchive doc =
     (case property ''agents'' (JSON_parse doc) of
        JArray vs \<Rightarrow> vs
      | _ \<Rightarrow> [])"

text \<open>
  \<^verbatim>\<open>save\<close> by one \<^verbatim>\<open>ArchiveManager\<close>, then \<^verbatim>\<open>load\<close> by a new one on the same path,
  where the write returns and the file is read as it was written.
\<close>

definition reload :: "jsvalue list \<Rightarrow> jsvalue list option" where
  "reload array = map_option loadedArchive (savedDocument array)"

text \<open>The objects of the archive array.\<close>

definition generationValue :: "generation_tag \<Rightarrow> jsvalue" where
  "generationValue g =
     (case g of Initial \<Rightarrow> JString ''initial'' | Generation n \<Rightarrow> JNumber (Finite (real n)))"

definition fitnessObject :: "FitnessNumbers \<Rightarrow> jsvalue" where
  "fitnessObject f =
     JObject [(''accuracy'', JNumber (accuracy' f)),
              (''confidenceLow'', JNumber (confidenceLow' f)),
              (''confidenceHigh'', JNumber (confidenceHigh' f)),
              (''evaluationCount'', JNumber (Finite (real (evaluationCount' f))))]"

text \<open>
  The object of a design, with a given value of its \<^verbatim>\<open>fitness\<close> property: the keys are
  in the order in which the object literals and the spread of
  \<^verbatim>\<open>initializeWithBaseline\<close> and \<^verbatim>\<open>add\<close> create them.
\<close>

definition designObject :: "AgentDesign \<Rightarrow> jsvalue \<Rightarrow> jsvalue" where
  "designObject a fitnessValue =
     JObject [(''name'', JString (name a)),
              (''thought'', JString (thought a)),
              (''code'', JString (code a)),
              (''generation'', generationValue (generation a)),
              (''fitness'', fitnessValue),
              (''id'', JString (id' a)),
              (''createdAt'', JString (createdAt a)),
              (''enabled'', JBoolean (enabled a))]"

definition designValue :: "AgentDesign \<Rightarrow> jsvalue" where
  "designValue a = designObject a (fitnessObject (numbers (fitness a)))"

text \<open>
  What is read back for a number and for a fitness object: \<^verbatim>\<open>null\<close> in the place of
  \<^verbatim>\<open>NaN\<close>.
\<close>

definition readNumber :: "jsnumber \<Rightarrow> jsvalue" where
  "readNumber n = (case n of Finite x \<Rightarrow> JNumber (Finite x) | NaN \<Rightarrow> JNull)"

definition readFitness :: "FitnessNumbers \<Rightarrow> jsvalue" where
  "readFitness f =
     JObject [(''accuracy'', readNumber (accuracy' f)),
              (''confidenceLow'', readNumber (confidenceLow' f)),
              (''confidenceHigh'', readNumber (confidenceHigh' f)),
              (''evaluationCount'', JNumber (Finite (real (evaluationCount' f))))]"

text \<open>
  The values that have a JSON document of their own: no \<^verbatim>\<open>undefined\<close> and no \<^verbatim>\<open>NaN\<close>
  anywhere in them.
\<close>

primrec representable :: "jsvalue \<Rightarrow> bool" where
  "representable JUndefined \<longleftrightarrow> False"
| "representable JNull \<longleftrightarrow> True"
| "representable (JBoolean b) \<longleftrightarrow> True"
| "representable (JNumber n) \<longleftrightarrow> n \<noteq> NaN"
| "representable (JString s) \<longleftrightarrow> True"
| "representable (JArray vs) \<longleftrightarrow> list_all id (map representable vs)"
| "representable (JObject ps) \<longleftrightarrow> list_all snd (map (map_prod id representable) ps)"

section \<open>Properties of the archive\<close>

subsection \<open>Rendering numbers\<close>

lemma showNat_small [simp]: "n < 10 \<Longrightarrow> showNat n = [''0123456789'' ! n]"
  by (subst showNat.simps) simp

lemma showNat_large [simp]:
  "10 \<le> n \<Longrightarrow> showNat n = showNat (n div 10) @ [''0123456789'' ! (n mod 10)]"
  by (subst showNat.simps) simp

subsection \<open>One fitness update\<close>

lemma recordEvaluation_count:
  "evaluationCount (fitness (recordEvaluation r a)) = evaluationCount (fitness a) + 1"
  by (simp add: recordEvaluation_def Let_def)

lemma recordEvaluation_accuracy:
  "Fitness.accuracy (fitness (recordEvaluation r a)) =
     (Fitness.accuracy (fitness a) * real (evaluationCount (fitness a)) + EvaluationResult.accuracy r)
       / real (evaluationCount (fitness a) + 1)"
  by (simp add: recordEvaluation_def Let_def)

lemma recordEvaluation_id: "id' (recordEvaluation r a) = id' a"
  by (simp add: recordEvaluation_def Let_def)

lemma recordEvaluation_enabled:
  "enabled (recordEvaluation r a) =
     (enabled a \<and> \<not> (evaluationCount (fitness a) + 1 \<ge> 5
        \<and> Fitness.accuracy (fitness (recordEvaluation r a)) < 0.3))"
  by (simp add: recordEvaluation_def Let_def)

lemma findIndex_Some:
  "findIndex P xs = Some k \<Longrightarrow> k < length xs \<and> P (xs ! k)"
  by (induction xs arbitrary: k) (auto split: if_splits)

lemma findIndex_map: "findIndex (\<lambda>a. f a = i) xs = findIndex (\<lambda>s. s = i) (map f xs)"
  by (induction xs) auto

lemma archive_save: "archive (save m) = archive m"
  by (simp add: save_def)

lemma updateFitness_found:
  "findIndex (\<lambda>a. id' a = i) (archive m) = Some k \<Longrightarrow>
   archive (updateFitness i r m) = (archive m)[k := recordEvaluation r (archive m ! k)]"
  by (simp add: updateFitness_def archive_save)

lemma updateFitness_ids: "map id' (archive (updateFitness i r m)) = map id' (archive m)"
proof (cases "findIndex (\<lambda>a. id' a = i) (archive m)")
  case None
  then show ?thesis by (simp add: updateFitness_def)
next
  case (Some k)
  then have "k < length (archive m)" using findIndex_Some by fastforce
  then have "(map id' (archive m))[k := id' (archive m ! k)] = map id' (archive m)"
    by (metis list_update_id nth_map)
  then show ?thesis
    by (simp add: updateFitness_found [OF Some] map_update recordEvaluation_id)
qed

lemma updateFitness_findIndex:
  "findIndex (\<lambda>a. id' a = j) (archive (updateFitness i r m)) = findIndex (\<lambda>a. id' a = j) (archive m)"
  by (simp add: findIndex_map [where f = id'] updateFitness_ids)

lemma updateFitnessAll_running:
  "findIndex (\<lambda>a. id' a = i) (archive m) = Some k \<Longrightarrow>
   findIndex (\<lambda>a. id' a = i) (archive (updateFitnessAll i rs m)) = Some k \<and>
   evaluationCount (fitness (archive (updateFitnessAll i rs m) ! k))
     = evaluationCount (fitness (archive m ! k)) + length rs \<and>
   Fitness.accuracy (fitness (archive (updateFitnessAll i rs m) ! k))
       * real (evaluationCount (fitness (archive m ! k)) + length rs)
     = Fitness.accuracy (fitness (archive m ! k)) * real (evaluationCount (fitness (archive m ! k)))
       + sum_list (map EvaluationResult.accuracy rs)"
proof (induction rs arbitrary: m)
  case Nil
  then show ?case by (simp add: updateFitnessAll_def)
next
  case (Cons r rs)
  let ?m = "updateFitness i r m"
  have k: "k < length (archive m)" using Cons.prems findIndex_Some by fastforce
  have f: "findIndex (\<lambda>a. id' a = i) (archive ?m) = Some k"
    by (simp add: updateFitness_findIndex Cons.prems)
  have a: "archive ?m ! k = recordEvaluation r (archive m ! k)"
    using k by (simp add: updateFitness_found [OF Cons.prems])
  have u: "updateFitnessAll i (r # rs) m = updateFitnessAll i rs ?m"
    by (simp add: updateFitnessAll_def)
  let ?c = "evaluationCount (fitness (archive m ! k))"
  let ?mu = "Fitness.accuracy (fitness (archive m ! k))"
  have c: "evaluationCount (fitness (archive ?m ! k)) = ?c + 1"
    by (simp add: a recordEvaluation_count)
  have "Fitness.accuracy (fitness (archive ?m ! k))
          = (?mu * real ?c + EvaluationResult.accuracy r) / real (?c + 1)"
    by (simp add: a recordEvaluation_accuracy)
  then have mu: "Fitness.accuracy (fitness (archive ?m ! k)) * real (?c + 1)
          = ?mu * real ?c + EvaluationResult.accuracy r"
    by simp
  from Cons.IH [OF f] show ?case
    unfolding u c mu by (simp add: add.assoc)
qed


lemma updateFitnessAll_snoc:
  "updateFitnessAll i (rs @ [r]) m = updateFitness i r (updateFitnessAll i rs m)"
  by (simp add: updateFitnessAll_def)


subsection \<open>The running mean\<close>

text \<open>
  Claim C1. Take the design that the lookup of \<open>ident\<close> finds in the archive (the first
  with that id, at position \<open>k\<close>), with \<^verbatim>\<open>evaluationCount\<close> 0. After any sequence of
  \<^verbatim>\<open>updateFitness\<close> calls on \<open>ident\<close>, its \<^verbatim>\<open>evaluationCount\<close> is the number of calls and,
  when there was a call, its \<^verbatim>\<open>fitness.accuracy\<close> is the arithmetic mean of the
  accuracies supplied. One more call takes the mean from \<open>oldMean\<close> to
  \<open>(oldMean * oldCount + observed) / (oldCount + 1)\<close>. Numbers are real numbers here:
  the equality is exact where the source's floating point arithmetic rounds.
\<close>

theorem C1_running_mean:
  assumes found: "findIndex (\<lambda>a. id' a = ident) (archive m) = Some k"
      and fresh: "evaluationCount (fitness (archive m ! k)) = 0"
  shows "evaluationCount (fitness (archive (updateFitnessAll ident results m) ! k)) = length results
       \<and> (results \<noteq> [] \<longrightarrow>
            Fitness.accuracy (fitness (archive (updateFitnessAll ident results m) ! k))
              = sum_list (map EvaluationResult.accuracy results) / real (length results))
       \<and> Fitness.accuracy (fitness (archive (updateFitnessAll ident (results @ [r]) m) ! k))
              = (Fitness.accuracy (fitness (archive (updateFitnessAll ident results m) ! k))
                    * real (length results) + EvaluationResult.accuracy r)
                / real (length results + 1)"
proof -
  let ?m = "updateFitnessAll ident results m"
  note run = updateFitnessAll_running [OF found, of results]
  have count: "evaluationCount (fitness (archive ?m ! k)) = length results"
    using run fresh by simp
  have "Fitness.accuracy (fitness (archive ?m ! k)) * real (length results)
          = sum_list (map EvaluationResult.accuracy results)"
    using run fresh by simp
  then have mean: "results \<noteq> [] \<longrightarrow>
      Fitness.accuracy (fitness (archive ?m ! k))
        = sum_list (map EvaluationResult.accuracy results) / real (length results)"
    by (simp add: field_simps)
  have f: "findIndex (\<lambda>a. id' a = ident) (archive ?m) = Some k"
    using run by simp
  then have k: "k < length (archive ?m)"
    using findIndex_Some by fastforce
  have step: "archive (updateFitnessAll ident (results @ [r]) m) ! k
                = recordEvaluation r (archive ?m ! k)"
    using k by (simp add: updateFitnessAll_snoc updateFitness_found [OF f])
  show ?thesis
    using count mean by (simp add: step recordEvaluation_accuracy)
qed

theorem C1_running_mean_witness:
  "findIndex (\<lambda>a. id' a = ''baseline-0'') (archive
        \<lparr>archive = [\<lparr>name = ''Chain-of-Thought'', thought = ''T'', code = ''C'', generation = Initial,
          fitness = \<lparr>accuracy = 0.5, confidenceLow = 0.4, confidenceHigh = 0.6, evaluationCount = 0\<rparr>,
          id' = ''baseline-0'', createdAt = ''t'', enabled = True\<rparr>], archiveFile = NoFile\<rparr>) = Some 0
   \<and> evaluationCount (fitness (archive
        \<lparr>archive = [\<lparr>name = ''Chain-of-Thought'', thought = ''T'', code = ''C'', generation = Initial,
          fitness = \<lparr>accuracy = 0.5, confidenceLow = 0.4, confidenceHigh = 0.6, evaluationCount = 0\<rparr>,
          id' = ''baseline-0'', createdAt = ''t'', enabled = True\<rparr>], archiveFile = NoFile\<rparr> ! 0)) = 0
   \<and> evaluationCount (fitness (archive (updateFitnessAll ''baseline-0''
          [\<lparr>success = True, accuracy = 0.2, errors = [], duration = 1\<rparr>,
           \<lparr>success = True, accuracy = 0.6, errors = [], duration = 1\<rparr>]
        \<lparr>archive = [\<lparr>name = ''Chain-of-Thought'', thought = ''T'', code = ''C'', generation = Initial,
          fitness = \<lparr>accuracy = 0.5, confidenceLow = 0.4, confidenceHigh = 0.6, evaluationCount = 0\<rparr>,
          id' = ''baseline-0'', createdAt = ''t'', enabled = True\<rparr>], archiveFile = NoFile\<rparr>) ! 0)) = 2
   \<and> Fitness.accuracy (fitness (archive (updateFitnessAll ''baseline-0''
          [\<lparr>success = True, accuracy = 0.2, errors = [], duration = 1\<rparr>,
           \<lparr>success = True, accuracy = 0.6, errors = [], duration = 1\<rparr>]
        \<lparr>archive = [\<lparr>name = ''Chain-of-Thought'', thought = ''T'', code = ''C'', generation = Initial,
          fitness = \<lparr>accuracy = 0.5, confidenceLow = 0.4, confidenceHigh = 0.6, evaluationCount = 0\<rparr>,
          id' = ''baseline-0'', createdAt = ''t'', enabled = True\<rparr>], archiveFile = NoFile\<rparr>) ! 0)) = 2 / 5"
proof -
  let ?m = "\<lparr>archive = [\<lparr>name = ''Chain-of-Thought'', thought = ''T'', code = ''C'', generation = Initial,
          fitness = \<lparr>accuracy = 0.5, confidenceLow = 0.4, confidenceHigh = 0.6, evaluationCount = 0\<rparr>,
          id' = ''baseline-0'', createdAt = ''t'', enabled = True\<rparr>], archiveFile = NoFile\<rparr>"
  have found: "findIndex (\<lambda>a. id' a = ''baseline-0'') (archive ?m) = Some 0"
    by simp
  have fresh: "evaluationCount (fitness (archive ?m ! 0)) = 0"
    by simp
  show ?thesis
    using found fresh
      C1_running_mean [OF found fresh,
        of "[\<lparr>success = True, accuracy = 0.2, errors = [], duration = 1\<rparr>,
             \<lparr>success = True, accuracy = 0.6, errors = [], duration = 1\<rparr>]"]
    by simp
qed

subsection \<open>Retirement\<close>

lemma recordEvaluation_disabled: "\<not> enabled a \<Longrightarrow> \<not> enabled (recordEvaluation r a)"
  by (simp add: recordEvaluation_enabled)

lemma updateFitness_length: "length (archive (updateFitness i r m)) = length (archive m)"
  by (simp add: updateFitness_def archive_save split: option.splits)

lemma updateFitness_disabled:
  assumes "k < length (archive m)" and "\<not> enabled (archive m ! k)"
  shows "\<not> enabled (archive (updateFitness i r m) ! k)"
proof (cases "findIndex (\<lambda>a. id' a = i) (archive m)")
  case None
  then show ?thesis using assms by (simp add: updateFitness_def)
next
  case (Some j)
  show ?thesis
    using assms by (cases "j = k") (simp_all add: updateFitness_found [OF Some] recordEvaluation_disabled)
qed

lemma add_length: "length (archive (snd (add agent now stamp m))) = length (archive m) + 1"
  by (simp add: add_def Let_def archive_save)

lemma add_old: "k < length (archive m) \<Longrightarrow> archive (snd (add agent now stamp m)) ! k = archive m ! k"
  by (simp add: add_def Let_def archive_save nth_append)

lemma perform_disabled:
  "k < length (archive m) \<Longrightarrow> \<not> enabled (archive m ! k) \<Longrightarrow>
   k < length (archive (perform op m)) \<and> \<not> enabled (archive (perform op m) ! k)"
  by (cases op) (simp_all add: archive_save add_length add_old updateFitness_length updateFitness_disabled)

lemma run_disabled:
  "k < length (archive m) \<Longrightarrow> \<not> enabled (archive m ! k) \<Longrightarrow>
   k < length (archive (fold perform ops m)) \<and> \<not> enabled (archive (fold perform ops m) ! k)"
proof (induction ops arbitrary: m)
  case Nil
  then show ?case by simp
next
  case (Cons op ops)
  from perform_disabled [OF Cons.prems, of op] Cons.IH [of "perform op m"]
  show ?case by simp
qed

lemma updateFitness_retires:
  assumes found: "findIndex (\<lambda>a. id' a = ident) (archive m) = Some k"
    and "5 \<le> evaluationCount (fitness (archive (updateFitness ident r m) ! k))"
    and "Fitness.accuracy (fitness (archive (updateFitness ident r m) ! k)) < 0.3"
  shows "\<not> enabled (archive (updateFitness ident r m) ! k)"
proof -
  have k: "k < length (archive m)" using found findIndex_Some by fastforce
  have a: "archive (updateFitness ident r m) ! k = recordEvaluation r (archive m ! k)"
    using k by (simp add: updateFitness_found [OF found])
  show ?thesis
    using assms(2,3) unfolding a
    by (simp add: recordEvaluation_enabled recordEvaluation_count)
qed


text \<open>
  Claim C2. An \<^verbatim>\<open>updateFitness\<close> call that leaves the design it finds with an
  \<^verbatim>\<open>evaluationCount\<close> of at least 5 and a mean below 0.3 leaves it disabled. A design
  of the archive that is disabled stays in the archive and stays disabled under every
  sequence of operations of the archive: \<^verbatim>\<open>enabled\<close> never goes from false to true.
\<close>

theorem C2_retirement_one_way:
  "(findIndex (\<lambda>a. id' a = ident) (archive m) = Some k
      \<and> 5 \<le> evaluationCount (fitness (archive (updateFitness ident r m) ! k))
      \<and> Fitness.accuracy (fitness (archive (updateFitness ident r m) ! k)) < 0.3
    \<longrightarrow> \<not> enabled (archive (updateFitness ident r m) ! k))
   \<and> (j < length (archive m) \<and> \<not> enabled (archive m ! j)
    \<longrightarrow> j < length (archive (fold perform ops m))
        \<and> \<not> enabled (archive (fold perform ops m) ! j))"
  using updateFitness_retires [of ident m k r] run_disabled [of j m ops] by blast

theorem C2_retirement_one_way_witness:
  "findIndex (\<lambda>a. id' a = ''gen-1-1000'')
      (archive \<lparr>archive = [\<lparr>name = ''A'', thought = ''B'', code = ''C'', generation = Generation 1,
          fitness = \<lparr>accuracy = 0.1, confidenceLow = 0, confidenceHigh = 0.4, evaluationCount = 4\<rparr>,
          id' = ''gen-1-1000'', createdAt = ''t'', enabled = True\<rparr>], archiveFile = NoFile\<rparr>) = Some 0
   \<and> 5 \<le> evaluationCount (fitness (archive (updateFitness ''gen-1-1000''
         \<lparr>success = True, accuracy = 0.2, errors = [], duration = 1\<rparr>
         \<lparr>archive = [\<lparr>name = ''A'', thought = ''B'', code = ''C'', generation = Generation 1,
          fitness = \<lparr>accuracy = 0.1, confidenceLow = 0, confidenceHigh = 0.4, evaluationCount = 4\<rparr>,
          id' = ''gen-1-1000'', createdAt = ''t'', enabled = True\<rparr>], archiveFile = NoFile\<rparr>) ! 0))
   \<and> Fitness.accuracy (fitness (archive (updateFitness ''gen-1-1000''
         \<lparr>success = True, accuracy = 0.2, errors = [], duration = 1\<rparr>
         \<lparr>archive = [\<lparr>name = ''A'', thought = ''B'', code = ''C'', generation = Generation 1,
          fitness = \<lparr>accuracy = 0.1, confidenceLow = 0, confidenceHigh = 0.4, evaluationCount = 4\<rparr>,
          id' = ''gen-1-1000'', createdAt = ''t'', enabled = True\<rparr>], archiveFile = NoFile\<rparr>) ! 0)) < 0.3
   \<and> \<not> enabled (archive (updateFitness ''gen-1-1000''
         \<lparr>success = True, accuracy = 0.2, errors = [], duration = 1\<rparr>
         \<lparr>archive = [\<lparr>name = ''A'', thought = ''B'', code = ''C'', generation = Generation 1,
          fitness = \<lparr>accuracy = 0.1, confidenceLow = 0, confidenceHigh = 0.4, evaluationCount = 4\<rparr>,
          id' = ''gen-1-1000'', createdAt = ''t'', enabled = True\<rparr>], archiveFile = NoFile\<rparr>) ! 0)
   \<and> 0 < length (archive \<lparr>archive = [\<lparr>name = ''A'', thought = ''B'', code = ''C'', generation = Generation 1,
          fitness = \<lparr>accuracy = 0.12, confidenceLow = 0, confidenceHigh = 0.4, evaluationCount = 5\<rparr>,
          id' = ''gen-1-1000'', createdAt = ''t'', enabled = False\<rparr>], archiveFile = NoFile\<rparr>)
   \<and> \<not> enabled (archive \<lparr>archive = [\<lparr>name = ''A'', thought = ''B'', code = ''C'', generation = Generation 1,
          fitness = \<lparr>accuracy = 0.12, confidenceLow = 0, confidenceHigh = 0.4, evaluationCount = 5\<rparr>,
          id' = ''gen-1-1000'', createdAt = ''t'', enabled = False\<rparr>], archiveFile = NoFile\<rparr> ! 0)
   \<and> \<not> enabled (archive (fold perform
         [UpdateFitness ''gen-1-1000'' \<lparr>success = True, accuracy = 1, errors = [], duration = 1\<rparr>,
          Add \<lparr>name = ''D'', thought = ''E'', code = ''F'', generation = Generation 1,
               fitness = \<lparr>accuracy = 0, confidenceLow = 0, confidenceHigh = 0, evaluationCount = 0\<rparr>\<rparr>
              1000 ''t'',
          Save, GetTopPerforming 5,
          UpdateFitness ''gen-1-1000'' \<lparr>success = True, accuracy = 1, errors = [], duration = 1\<rparr>]
         \<lparr>archive = [\<lparr>name = ''A'', thought = ''B'', code = ''C'', generation = Generation 1,
          fitness = \<lparr>accuracy = 0.12, confidenceLow = 0, confidenceHigh = 0.4, evaluationCount = 5\<rparr>,
          id' = ''gen-1-1000'', createdAt = ''t'', enabled = False\<rparr>], archiveFile = NoFile\<rparr>) ! 0)"
proof -
  let ?m1 = "\<lparr>archive = [\<lparr>name = ''A'', thought = ''B'', code = ''C'', generation = Generation 1,
          fitness = \<lparr>accuracy = 0.1, confidenceLow = 0, confidenceHigh = 0.4, evaluationCount = 4\<rparr>,
          id' = ''gen-1-1000'', createdAt = ''t'', enabled = True\<rparr>], archiveFile = NoFile\<rparr>"
  let ?m2 = "\<lparr>archive = [\<lparr>name = ''A'', thought = ''B'', code = ''C'', generation = Generation 1,
          fitness = \<lparr>accuracy = 0.12, confidenceLow = 0, confidenceHigh = 0.4, evaluationCount = 5\<rparr>,
          id' = ''gen-1-1000'', createdAt = ''t'', enabled = False\<rparr>], archiveFile = NoFile\<rparr>"
  let ?r = "\<lparr>success = True, accuracy = 0.2, errors = [], duration = 1\<rparr>"
  let ?ops = "[UpdateFitness ''gen-1-1000'' \<lparr>success = True, accuracy = 1, errors = [], duration = 1\<rparr>,
          Add \<lparr>name = ''D'', thought = ''E'', code = ''F'', generation = Generation 1,
               fitness = \<lparr>accuracy = 0, confidenceLow = 0, confidenceHigh = 0, evaluationCount = 0\<rparr>\<rparr>
              1000 ''t'',
          Save, GetTopPerforming 5,
          UpdateFitness ''gen-1-1000'' \<lparr>success = True, accuracy = 1, errors = [], duration = 1\<rparr>]"
  have found: "findIndex (\<lambda>a. id' a = ''gen-1-1000'') (archive ?m1) = Some 0"
    by simp
  have count: "5 \<le> evaluationCount (fitness (archive (updateFitness ''gen-1-1000'' ?r ?m1) ! 0))"
    by (simp add: updateFitness_def recordEvaluation_def save_def Let_def)
  have low: "Fitness.accuracy (fitness (archive (updateFitness ''gen-1-1000'' ?r ?m1) ! 0)) < 0.3"
    by (simp add: updateFitness_def recordEvaluation_def save_def Let_def)
  have retired: "0 < length (archive ?m2) \<and> \<not> enabled (archive ?m2 ! 0)"
    by simp
  from found count low C2_retirement_one_way [of "''gen-1-1000''" ?m1 0 ?r]
  have one: "\<not> enabled (archive (updateFitness ''gen-1-1000'' ?r ?m1) ! 0)"
    by blast
  from retired C2_retirement_one_way [of _ ?m2 _ _ 0 ?ops]
  have two: "\<not> enabled (archive (fold perform ?ops ?m2) ! 0)"
    by blast
  from found count low one retired two show ?thesis
    by blast
qed

subsection \<open>Initialisation\<close>

lemma updateFitnessAll_first:
  assumes "findIndex (\<lambda>a. id' a = i) (archive m) = Some k"
  shows "archive (updateFitnessAll i rs m) ! k = fold recordEvaluation rs (archive m ! k)"
  using assms
proof (induction rs arbitrary: m)
  case Nil
  then show ?case by (simp add: updateFitnessAll_def)
next
  case (Cons r rs)
  have k: "k < length (archive m)" using Cons.prems findIndex_Some by fastforce
  have f: "findIndex (\<lambda>a. id' a = i) (archive (updateFitness i r m)) = Some k"
    by (simp add: updateFitness_findIndex Cons.prems)
  have "archive (updateFitnessAll i (r # rs) m) ! k
          = archive (updateFitnessAll i rs (updateFitness i r m)) ! k"
    by (simp add: updateFitnessAll_def)
  also have "\<dots> = fold recordEvaluation rs (archive (updateFitness i r m) ! k)"
    by (rule Cons.IH [OF f])
  finally show ?case
    using k by (simp add: updateFitness_found [OF Cons.prems])
qed

lemma INITIAL_ARCHIVE_length: "length INITIAL_ARCHIVE = 4"
  by (simp add: INITIAL_ARCHIVE_def)





lemma newArchiveManager_seeds:
  assumes "file = NoFile \<or> file = Unparseable"
  shows "newArchiveManager writes shared clock file
     = (if writes
        then Inr \<lparr>archive = baselineDesigns shared clock,
                  archiveFile = Parsed (JsValue (AgentsArray (baselineDesigns shared clock)))\<rparr>
        else Inl WriteFailed)"
  using assms
  by (auto simp: newArchiveManager_def load_def initializeWithBaseline_def saveOrThrow_def save_def)




subsection \<open>The retirement scenario on the seeded archive\<close>

lemma seeded_first:
  "baselineDesigns initialFitness clock ! 0 =
     \<lparr>name = ''Chain-of-Thought'',
      thought = ''Break down complex problems into step-by-step reasoning before answering.'',
      code = chainOfThoughtCode, generation = Initial,
      fitness = \<lparr>accuracy = 0.5, confidenceLow = 0.4, confidenceHigh = 0.6, evaluationCount = 0\<rparr>,
      id' = ''baseline-0'', createdAt = clock 0, enabled = True\<rparr>"
  by (simp add: baselineDesigns_def initialFitness_def INITIAL_ARCHIVE_def)

lemma seeded_found:
  "findIndex (\<lambda>a. id' a = ''baseline-0'') (baselineDesigns initialFitness clock) = Some 0"
  by (simp add: baselineDesigns_def INITIAL_ARCHIVE_def)

text \<open>
  Claim C4, as stated, fails on the means. The start is the archive as the constructor
  seeds it in a process that has updated no baseline design: the four designs of
  \<^verbatim>\<open>INITIAL_ARCHIVE\<close>, with \<^verbatim>\<open>evaluationCount\<close> 0. The design \<^verbatim>\<open>baseline-0\<close> has count 0, so
  the first update replaces its seed accuracy 0.50 by the observation. After four
  updates with accuracy 0.1 the mean is 0.1, not about 0.18, and after the fifth it is
  0.1, not about 0.164.
\<close>

theorem C4_counterexample:
  "Fitness.accuracy (fitness (archive (updateFitnessAll ''baseline-0''
          [\<lparr>success = True, accuracy = 0.1, errors = [], duration = 1\<rparr>,
           \<lparr>success = True, accuracy = 0.1, errors = [], duration = 1\<rparr>,
           \<lparr>success = True, accuracy = 0.1, errors = [], duration = 1\<rparr>,
           \<lparr>success = True, accuracy = 0.1, errors = [], duration = 1\<rparr>]
          \<lparr>archive = baselineDesigns initialFitness epochClock, archiveFile = NoFile\<rparr>) ! 0)) = 0.1
   \<and> \<bar>Fitness.accuracy (fitness (archive (updateFitnessAll ''baseline-0''
          [\<lparr>success = True, accuracy = 0.1, errors = [], duration = 1\<rparr>,
           \<lparr>success = True, accuracy = 0.1, errors = [], duration = 1\<rparr>,
           \<lparr>success = True, accuracy = 0.1, errors = [], duration = 1\<rparr>,
           \<lparr>success = True, accuracy = 0.1, errors = [], duration = 1\<rparr>]
          \<lparr>archive = baselineDesigns initialFitness epochClock, archiveFile = NoFile\<rparr>) ! 0)) - 0.18\<bar> > 0.05
   \<and> Fitness.accuracy (fitness (archive (updateFitnessAll ''baseline-0''
          [\<lparr>success = True, accuracy = 0.1, errors = [], duration = 1\<rparr>,
           \<lparr>success = True, accuracy = 0.1, errors = [], duration = 1\<rparr>,
           \<lparr>success = True, accuracy = 0.1, errors = [], duration = 1\<rparr>,
           \<lparr>success = True, accuracy = 0.1, errors = [], duration = 1\<rparr>,
           \<lparr>success = True, accuracy = 0.1, errors = [], duration = 1\<rparr>]
          \<lparr>archive = baselineDesigns initialFitness epochClock, archiveFile = NoFile\<rparr>) ! 0)) = 0.1
   \<and> \<bar>Fitness.accuracy (fitness (archive (updateFitnessAll ''baseline-0''
          [\<lparr>success = True, accuracy = 0.1, errors = [], duration = 1\<rparr>,
           \<lparr>success = True, accuracy = 0.1, errors = [], duration = 1\<rparr>,
           \<lparr>success = True, accuracy = 0.1, errors = [], duration = 1\<rparr>,
           \<lparr>success = True, accuracy = 0.1, errors = [], duration = 1\<rparr>,
           \<lparr>success = True, accuracy = 0.1, errors = [], duration = 1\<rparr>]
          \<lparr>archive = baselineDesigns initialFitness epochClock, archiveFile = NoFile\<rparr>) ! 0)) - 0.164\<bar> > 0.05"
proof -
  have found: "findIndex (\<lambda>a. id' a = ''baseline-0'')
      (archive \<lparr>archive = baselineDesigns initialFitness epochClock, archiveFile = NoFile\<rparr>) = Some 0"
    by (simp add: seeded_found)
  show ?thesis
    by (simp add: updateFitnessAll_first [OF found] seeded_first recordEvaluation_def Let_def)
qed

text \<open>
  Claim C4, amended. The freshly seeded archive of a process that has updated no
  baseline design (what the constructor returns there when no file exists) holds four
  designs with accuracies 0.50, 0.55, 0.58, 0.52 and \<^verbatim>\<open>evaluationCount\<close> 0. From it, four
  \<^verbatim>\<open>updateFitness\<close> calls on the 0.50 design with accuracy 0.1 leave it with count 4, mean
  0.1 and still enabled; a fifth leaves it with count 5, mean 0.1 and disabled.
\<close>

theorem C4_scenario:
  "newArchiveManager True initialFitness clock NoFile
     = Inr (save \<lparr>archive = baselineDesigns initialFitness clock, archiveFile = NoFile\<rparr>)
   \<and> map (\<lambda>a. (id' a, Fitness.accuracy (fitness a), evaluationCount (fitness a)))
       (baselineDesigns initialFitness clock)
      = [(''baseline-0'', 0.5, 0), (''baseline-1'', 0.55, 0), (''baseline-2'', 0.58, 0),
         (''baseline-3'', 0.52, 0)]
   \<and> (let start = save \<lparr>archive = baselineDesigns initialFitness clock, archiveFile = NoFile\<rparr>;
           r = \<lparr>success = s, accuracy = 0.1, errors = e, duration = d\<rparr>;
           four = archive (updateFitnessAll ''baseline-0'' [r, r, r, r] start) ! 0;
           five = archive (updateFitnessAll ''baseline-0'' [r, r, r, r, r] start) ! 0
       in id' four = ''baseline-0''
          \<and> evaluationCount (fitness four) = 4 \<and> Fitness.accuracy (fitness four) = 0.1
          \<and> enabled four
          \<and> evaluationCount (fitness five) = 5 \<and> Fitness.accuracy (fitness five) = 0.1
          \<and> \<not> enabled five)"
proof -
  have start: "save \<lparr>archive = baselineDesigns initialFitness clock, archiveFile = NoFile\<rparr>
      = \<lparr>archive = baselineDesigns initialFitness clock,
         archiveFile = Parsed (JsValue (AgentsArray (baselineDesigns initialFitness clock)))\<rparr>"
    by (simp add: save_def)
  have seeded: "newArchiveManager True initialFitness clock NoFile
     = Inr (save \<lparr>archive = baselineDesigns initialFitness clock, archiveFile = NoFile\<rparr>)"
    by (simp add: newArchiveManager_seeds start)
  have four: "map (\<lambda>a. (id' a, Fitness.accuracy (fitness a), evaluationCount (fitness a)))
       (baselineDesigns initialFitness clock)
      = [(''baseline-0'', 0.5, 0), (''baseline-1'', 0.55, 0), (''baseline-2'', 0.58, 0),
         (''baseline-3'', 0.52, 0)]"
    by (simp add: baselineDesigns_def initialFitness_def INITIAL_ARCHIVE_def eval_nat_numeral)
  have runs: "let start = save \<lparr>archive = baselineDesigns initialFitness clock, archiveFile = NoFile\<rparr>;
           r = \<lparr>success = s, accuracy = 0.1, errors = e, duration = d\<rparr>;
           four = archive (updateFitnessAll ''baseline-0'' [r, r, r, r] start) ! 0;
           five = archive (updateFitnessAll ''baseline-0'' [r, r, r, r, r] start) ! 0
       in id' four = ''baseline-0''
          \<and> evaluationCount (fitness four) = 4 \<and> Fitness.accuracy (fitness four) = 0.1
          \<and> enabled four
          \<and> evaluationCount (fitness five) = 5 \<and> Fitness.accuracy (fitness five) = 0.1
          \<and> \<not> enabled five"
  proof -
    have found: "findIndex (\<lambda>a. id' a = ''baseline-0'')
        (archive \<lparr>archive = baselineDesigns initialFitness clock,
           archiveFile = Parsed (JsValue (AgentsArray (baselineDesigns initialFitness clock)))\<rparr>)
        = Some 0"
      by (simp add: seeded_found)
    show ?thesis
      unfolding start
      by (simp add: Let_def updateFitnessAll_first [OF found] seeded_first recordEvaluation_def)
  qed
  from seeded four runs show ?thesis
    by blast
qed

subsection \<open>Confidence bounds\<close>

lemma recordEvaluation_confidence:
  "confidenceLow (fitness (recordEvaluation r a))
     = max 0 (Fitness.accuracy (fitness (recordEvaluation r a))
        - 1.96 * sqrt (Fitness.accuracy (fitness (recordEvaluation r a))
                        * (1 - Fitness.accuracy (fitness (recordEvaluation r a)))
                        / real (evaluationCount (fitness (recordEvaluation r a)))))
   \<and> confidenceHigh (fitness (recordEvaluation r a))
     = min 1 (Fitness.accuracy (fitness (recordEvaluation r a))
        + 1.96 * sqrt (Fitness.accuracy (fitness (recordEvaluation r a))
                        * (1 - Fitness.accuracy (fitness (recordEvaluation r a)))
                        / real (evaluationCount (fitness (recordEvaluation r a)))))"
  by (simp add: recordEvaluation_def Let_def)

lemma clamped_bounds:
  fixes mu :: real
  assumes "0 \<le> mu" and "mu \<le> 1"
  shows "0 \<le> max 0 (mu - 1.96 * sqrt (mu * (1 - mu) / real n))
       \<and> max 0 (mu - 1.96 * sqrt (mu * (1 - mu) / real n)) \<le> mu
       \<and> mu \<le> min 1 (mu + 1.96 * sqrt (mu * (1 - mu) / real n))
       \<and> min 1 (mu + 1.96 * sqrt (mu * (1 - mu) / real n)) \<le> 1"
proof -
  have "0 \<le> mu * (1 - mu) / real n"
    using assms by simp
  then have "0 \<le> sqrt (mu * (1 - mu) / real n)"
    by simp
  then show ?thesis
    using assms by simp
qed

lemma recordEvaluation_mean_in_unit:
  assumes "evaluationCount (fitness a) = 0
     \<or> (0 \<le> Fitness.accuracy (fitness a) \<and> Fitness.accuracy (fitness a) \<le> 1)"
    and "0 \<le> EvaluationResult.accuracy r" and "EvaluationResult.accuracy r \<le> 1"
  shows "0 \<le> Fitness.accuracy (fitness (recordEvaluation r a))
       \<and> Fitness.accuracy (fitness (recordEvaluation r a)) \<le> 1"
proof (cases "evaluationCount (fitness a) = 0")
  case True
  then show ?thesis using assms(2,3) by (simp add: recordEvaluation_accuracy)
next
  case False
  let ?c = "real (evaluationCount (fitness a))"
  let ?mu = "Fitness.accuracy (fitness a)"
  have mu: "0 \<le> ?mu" "?mu \<le> 1" using assms(1) False by auto
  have "0 \<le> ?mu * ?c" using mu by simp
  moreover have "?mu * ?c \<le> ?c" using mu by (simp add: mult_left_le_one_le)
  ultimately show ?thesis
    using assms(2,3) by (simp add: recordEvaluation_accuracy field_simps)
qed

lemma fold_recordEvaluation_mean_in_unit:
  assumes "\<forall>r \<in> set rs. 0 \<le> EvaluationResult.accuracy r \<and> EvaluationResult.accuracy r \<le> 1"
    and "evaluationCount (fitness a) = 0
     \<or> (0 \<le> Fitness.accuracy (fitness a) \<and> Fitness.accuracy (fitness a) \<le> 1)"
  shows "evaluationCount (fitness (fold recordEvaluation rs a)) = 0
     \<or> (0 \<le> Fitness.accuracy (fitness (fold recordEvaluation rs a))
         \<and> Fitness.accuracy (fitness (fold recordEvaluation rs a)) \<le> 1)"
  using assms
proof (induction rs arbitrary: a)
  case Nil
  then show ?case by simp
next
  case (Cons r rs)
  have "0 \<le> Fitness.accuracy (fitness (recordEvaluation r a))
       \<and> Fitness.accuracy (fitness (recordEvaluation r a)) \<le> 1"
    using Cons.prems by (intro recordEvaluation_mean_in_unit) auto
  then show ?case
    using Cons.IH [of "recordEvaluation r a"] Cons.prems(1) by simp
qed


text \<open>
  Claim C7. Take the design that the lookup of \<open>ident\<close> finds, with \<^verbatim>\<open>evaluationCount\<close> 0,
  and any non-empty sequence of \<^verbatim>\<open>updateFitness\<close> calls on \<open>ident\<close> whose accuracies all
  lie in \<open>[0, 1]\<close>. After the last call (so after every call of such a sequence)
  \<open>0 \<le> confidenceLow \<le> mean \<le> confidenceHigh \<le> 1\<close>, and the two bounds are
  \<open>mean \<mp> 1.96 * sqrt (mean * (1 - mean) / count)\<close> for the current mean and count,
  clamped below at 0 and above at 1.
\<close>

theorem C7_confidence_bounds:
  assumes found: "findIndex (\<lambda>a. id' a = ident) (archive m) = Some k"
      and fresh: "evaluationCount (fitness (archive m ! k)) = 0"
      and some: "results \<noteq> []"
      and unit: "\<forall>r \<in> set results. 0 \<le> EvaluationResult.accuracy r \<and> EvaluationResult.accuracy r \<le> 1"
  shows "(let f = fitness (archive (updateFitnessAll ident results m) ! k) in
          0 \<le> confidenceLow f \<and> confidenceLow f \<le> Fitness.accuracy f
          \<and> Fitness.accuracy f \<le> confidenceHigh f \<and> confidenceHigh f \<le> 1
          \<and> confidenceLow f
              = max 0 (Fitness.accuracy f
                  - 1.96 * sqrt (Fitness.accuracy f * (1 - Fitness.accuracy f)
                                  / real (evaluationCount f)))
          \<and> confidenceHigh f
              = min 1 (Fitness.accuracy f
                  + 1.96 * sqrt (Fitness.accuracy f * (1 - Fitness.accuracy f)
                                  / real (evaluationCount f))))"
proof -
  from some obtain rs r where split: "results = rs @ [r]"
    by (meson rev_exhaust)
  let ?before = "fold recordEvaluation rs (archive m ! k)"
  let ?after = "recordEvaluation r ?before"
  have after: "archive (updateFitnessAll ident results m) ! k = ?after"
    by (simp add: updateFitnessAll_first [OF found] split)
  have "evaluationCount (fitness ?before) = 0
     \<or> (0 \<le> Fitness.accuracy (fitness ?before) \<and> Fitness.accuracy (fitness ?before) \<le> 1)"
    using unit fresh by (intro fold_recordEvaluation_mean_in_unit) (simp_all add: split)
  then have mean: "0 \<le> Fitness.accuracy (fitness ?after) \<and> Fitness.accuracy (fitness ?after) \<le> 1"
    using unit by (intro recordEvaluation_mean_in_unit) (simp_all add: split)
  show ?thesis
    unfolding after Let_def
    using recordEvaluation_confidence [of r ?before]
      clamped_bounds [of "Fitness.accuracy (fitness ?after)" "evaluationCount (fitness ?after)"]
      mean
    by presburger
qed

theorem C7_confidence_bounds_witness:
  "findIndex (\<lambda>a. id' a = ''baseline-0'') (archive
        \<lparr>archive = [\<lparr>name = ''Chain-of-Thought'', thought = ''T'', code = ''C'', generation = Initial,
          fitness = \<lparr>accuracy = 0.5, confidenceLow = 0.4, confidenceHigh = 0.6, evaluationCount = 0\<rparr>,
          id' = ''baseline-0'', createdAt = ''t'', enabled = True\<rparr>], archiveFile = NoFile\<rparr>) = Some 0
   \<and> evaluationCount (fitness (archive
        \<lparr>archive = [\<lparr>name = ''Chain-of-Thought'', thought = ''T'', code = ''C'', generation = Initial,
          fitness = \<lparr>accuracy = 0.5, confidenceLow = 0.4, confidenceHigh = 0.6, evaluationCount = 0\<rparr>,
          id' = ''baseline-0'', createdAt = ''t'', enabled = True\<rparr>], archiveFile = NoFile\<rparr> ! 0)) = 0
   \<and> 0 \<le> confidenceLow (fitness (archive (updateFitnessAll ''baseline-0''
          [\<lparr>success = True, accuracy = 0.2, errors = [], duration = 1\<rparr>,
           \<lparr>success = True, accuracy = 1, errors = [], duration = 1\<rparr>]
        \<lparr>archive = [\<lparr>name = ''Chain-of-Thought'', thought = ''T'', code = ''C'', generation = Initial,
          fitness = \<lparr>accuracy = 0.5, confidenceLow = 0.4, confidenceHigh = 0.6, evaluationCount = 0\<rparr>,
          id' = ''baseline-0'', createdAt = ''t'', enabled = True\<rparr>], archiveFile = NoFile\<rparr>) ! 0))
   \<and> confidenceLow (fitness (archive (updateFitnessAll ''baseline-0''
          [\<lparr>success = True, accuracy = 0.2, errors = [], duration = 1\<rparr>,
           \<lparr>success = True, accuracy = 1, errors = [], duration = 1\<rparr>]
        \<lparr>archive = [\<lparr>name = ''Chain-of-Thought'', thought = ''T'', code = ''C'', generation = Initial,
          fitness = \<lparr>accuracy = 0.5, confidenceLow = 0.4, confidenceHigh = 0.6, evaluationCount = 0\<rparr>,
          id' = ''baseline-0'', createdAt = ''t'', enabled = True\<rparr>], archiveFile = NoFile\<rparr>) ! 0))
        \<le> Fitness.accuracy (fitness (archive (updateFitnessAll ''baseline-0''
          [\<lparr>success = True, accuracy = 0.2, errors = [], duration = 1\<rparr>,
           \<lparr>success = True, accuracy = 1, errors = [], duration = 1\<rparr>]
        \<lparr>archive = [\<lparr>name = ''Chain-of-Thought'', thought = ''T'', code = ''C'', generation = Initial,
          fitness = \<lparr>accuracy = 0.5, confidenceLow = 0.4, confidenceHigh = 0.6, evaluationCount = 0\<rparr>,
          id' = ''baseline-0'', createdAt = ''t'', enabled = True\<rparr>], archiveFile = NoFile\<rparr>) ! 0))
   \<and> Fitness.accuracy (fitness (archive (updateFitnessAll ''baseline-0''
          [\<lparr>success = True, accuracy = 0.2, errors = [], duration = 1\<rparr>,
           \<lparr>success = True, accuracy = 1, errors = [], duration = 1\<rparr>]
        \<lparr>archive = [\<lparr>name = ''Chain-of-Thought'', thought = ''T'', code = ''C'', generation = Initial,
          fitness = \<lparr>accuracy = 0.5, confidenceLow = 0.4, confidenceHigh = 0.6, evaluationCount = 0\<rparr>,
          id' = ''baseline-0'', createdAt = ''t'', enabled = True\<rparr>], archiveFile = NoFile\<rparr>) ! 0))
        \<le> confidenceHigh (fitness (archive (updateFitnessAll ''baseline-0''
          [\<lparr>success = True, accuracy = 0.2, errors = [], duration = 1\<rparr>,
           \<lparr>success = True, accuracy = 1, errors = [], duration = 1\<rparr>]
        \<lparr>archive = [\<lparr>name = ''Chain-of-Thought'', thought = ''T'', code = ''C'', generation = Initial,
          fitness = \<lparr>accuracy = 0.5, confidenceLow = 0.4, confidenceHigh = 0.6, evaluationCount = 0\<rparr>,
          id' = ''baseline-0'', createdAt = ''t'', enabled = True\<rparr>], archiveFile = NoFile\<rparr>) ! 0))
   \<and> confidenceHigh (fitness (archive (updateFitnessAll ''baseline-0''
          [\<lparr>success = True, accuracy = 0.2, errors = [], duration = 1\<rparr>,
           \<lparr>success = True, accuracy = 1, errors = [], duration = 1\<rparr>]
        \<lparr>archive = [\<lparr>name = ''Chain-of-Thought'', thought = ''T'', code = ''C'', generation = Initial,
          fitness = \<lparr>accuracy = 0.5, confidenceLow = 0.4, confidenceHigh = 0.6, evaluationCount = 0\<rparr>,
          id' = ''baseline-0'', createdAt = ''t'', enabled = True\<rparr>], archiveFile = NoFile\<rparr>) ! 0)) \<le> 1"
proof -
  let ?rs = "[\<lparr>success = True, accuracy = 0.2, errors = [], duration = 1\<rparr>,
              \<lparr>success = True, accuracy = 1, errors = [], duration = 1\<rparr>]"
  let ?m = "\<lparr>archive = [\<lparr>name = ''Chain-of-Thought'', thought = ''T'', code = ''C'', generation = Initial,
          fitness = \<lparr>accuracy = 0.5, confidenceLow = 0.4, confidenceHigh = 0.6, evaluationCount = 0\<rparr>,
          id' = ''baseline-0'', createdAt = ''t'', enabled = True\<rparr>], archiveFile = NoFile\<rparr>"
  have found: "findIndex (\<lambda>a. id' a = ''baseline-0'') (archive ?m) = Some 0"
    by simp
  have fresh: "evaluationCount (fitness (archive ?m ! 0)) = 0"
    by simp
  have some: "?rs \<noteq> []"
    by simp
  have unit: "\<forall>r \<in> set ?rs. 0 \<le> EvaluationResult.accuracy r \<and> EvaluationResult.accuracy r \<le> 1"
    by simp
  from C7_confidence_bounds [OF found fresh some unit] found fresh
  show ?thesis
    by (simp add: Let_def)
qed

subsection \<open>Updates of a retired design\<close>

lemma recordEvaluation_ignores_enabled:
  "fitness (recordEvaluation r (a\<lparr>enabled := b\<rparr>)) = fitness (recordEvaluation r a)"
  by (simp add: recordEvaluation_def Let_def)

lemma updateFitness_file:
  "findIndex (\<lambda>a. id' a = i) (archive m) = Some k \<Longrightarrow>
   archiveFile (updateFitness i r m) = Parsed (JsValue (AgentsArray (archive (updateFitness i r m))))"
  by (simp add: updateFitness_def save_def)

lemma findIndex_set_enabled:
  "findIndex (\<lambda>a. id' a = i) (xs[k := (xs ! k)\<lparr>enabled := b\<rparr>]) = findIndex (\<lambda>a. id' a = i) xs"
proof -
  have "map id' (xs[k := (xs ! k)\<lparr>enabled := b\<rparr>]) = map id' xs"
  proof (cases "k < length xs")
    case True
    then show ?thesis by (simp add: map_update list_update_same_conv)
  next
    case False
    then have "xs[k := (xs ! k)\<lparr>enabled := b\<rparr>] = xs"
      by (intro list_update_beyond) simp
    then show ?thesis by simp
  qed
  then show ?thesis
    by (simp add: findIndex_map [where f = id'])
qed

text \<open>
  Claim C10. \<^verbatim>\<open>updateFitness\<close> does not read \<^verbatim>\<open>enabled\<close>. For the design that the lookup
  of \<open>ident\<close> finds, enabled or not, the call adds one to \<^verbatim>\<open>evaluationCount\<close>, sets the
  mean to \<open>(oldMean * oldCount + observed) / (oldCount + 1)\<close>, recomputes both confidence
  bounds from the new mean and count, and writes the archive to the file. The fitness
  it leaves is the same whatever the value \<open>b\<close> of the design's \<^verbatim>\<open>enabled\<close> flag was
  before the call.
\<close>

theorem C10_update_ignores_enabled:
  assumes found: "findIndex (\<lambda>a. id' a = ident) (archive m) = Some k"
  shows "(let old = fitness (archive m ! k);
              new = fitness (archive (updateFitness ident r m) ! k)
          in evaluationCount new = evaluationCount old + 1
             \<and> Fitness.accuracy new
                 = (Fitness.accuracy old * real (evaluationCount old) + EvaluationResult.accuracy r)
                     / real (evaluationCount old + 1)
             \<and> confidenceLow new
                 = max 0 (Fitness.accuracy new
                     - 1.96 * sqrt (Fitness.accuracy new * (1 - Fitness.accuracy new)
                                     / real (evaluationCount new)))
             \<and> confidenceHigh new
                 = min 1 (Fitness.accuracy new
                     + 1.96 * sqrt (Fitness.accuracy new * (1 - Fitness.accuracy new)
                                     / real (evaluationCount new)))
             \<and> new = fitness (archive (updateFitness ident r
                         (m\<lparr>archive := (archive m)[k := (archive m ! k)\<lparr>enabled := b\<rparr>]\<rparr>)) ! k))
         \<and> archiveFile (updateFitness ident r m)
             = Parsed (JsValue (AgentsArray (archive (updateFitness ident r m))))"
proof -
  have k: "k < length (archive m)"
    using found findIndex_Some by fastforce
  have new: "archive (updateFitness ident r m) ! k = recordEvaluation r (archive m ! k)"
    using k by (simp add: updateFitness_found [OF found])
  let ?m = "m\<lparr>archive := (archive m)[k := (archive m ! k)\<lparr>enabled := b\<rparr>]\<rparr>"
  have found': "findIndex (\<lambda>a. id' a = ident) (archive ?m) = Some k"
    using found by (simp add: findIndex_set_enabled)
  have flipped: "archive (updateFitness ident r ?m) ! k
                   = recordEvaluation r ((archive m ! k)\<lparr>enabled := b\<rparr>)"
    using k by (simp add: updateFitness_found [OF found'])
  show ?thesis
    unfolding Let_def new flipped
    using recordEvaluation_confidence [of r "archive m ! k"]
    by (simp add: recordEvaluation_count recordEvaluation_accuracy
          recordEvaluation_ignores_enabled updateFitness_file [OF found])
qed


theorem C10_update_ignores_enabled_witness:
  "findIndex (\<lambda>a. id' a = ''gen-1-1000'')
      (archive \<lparr>archive = [\<lparr>name = ''A'', thought = ''B'', code = ''C'', generation = Generation 1,
          fitness = \<lparr>accuracy = 0.12, confidenceLow = 0, confidenceHigh = 0.4, evaluationCount = 5\<rparr>,
          id' = ''gen-1-1000'', createdAt = ''t'', enabled = False\<rparr>], archiveFile = NoFile\<rparr>) = Some 0
   \<and> \<not> enabled (archive \<lparr>archive = [\<lparr>name = ''A'', thought = ''B'', code = ''C'', generation = Generation 1,
          fitness = \<lparr>accuracy = 0.12, confidenceLow = 0, confidenceHigh = 0.4, evaluationCount = 5\<rparr>,
          id' = ''gen-1-1000'', createdAt = ''t'', enabled = False\<rparr>], archiveFile = NoFile\<rparr> ! 0)
   \<and> evaluationCount (fitness (archive (updateFitness ''gen-1-1000'' \<lparr>success = True, accuracy = 1, errors = [], duration = 1\<rparr>
         \<lparr>archive = [\<lparr>name = ''A'', thought = ''B'', code = ''C'', generation = Generation 1,
          fitness = \<lparr>accuracy = 0.12, confidenceLow = 0, confidenceHigh = 0.4, evaluationCount = 5\<rparr>,
          id' = ''gen-1-1000'', createdAt = ''t'', enabled = False\<rparr>], archiveFile = NoFile\<rparr>) ! 0)) = 6
   \<and> Fitness.accuracy (fitness (archive (updateFitness ''gen-1-1000'' \<lparr>success = True, accuracy = 1, errors = [], duration = 1\<rparr>
         \<lparr>archive = [\<lparr>name = ''A'', thought = ''B'', code = ''C'', generation = Generation 1,
          fitness = \<lparr>accuracy = 0.12, confidenceLow = 0, confidenceHigh = 0.4, evaluationCount = 5\<rparr>,
          id' = ''gen-1-1000'', createdAt = ''t'', enabled = False\<rparr>], archiveFile = NoFile\<rparr>) ! 0)) = 4 / 15
   \<and> archiveFile (updateFitness ''gen-1-1000'' \<lparr>success = True, accuracy = 1, errors = [], duration = 1\<rparr>
         \<lparr>archive = [\<lparr>name = ''A'', thought = ''B'', code = ''C'', generation = Generation 1,
          fitness = \<lparr>accuracy = 0.12, confidenceLow = 0, confidenceHigh = 0.4, evaluationCount = 5\<rparr>,
          id' = ''gen-1-1000'', createdAt = ''t'', enabled = False\<rparr>], archiveFile = NoFile\<rparr>)
       = Parsed (JsValue (AgentsArray (archive (updateFitness ''gen-1-1000'' \<lparr>success = True, accuracy = 1, errors = [], duration = 1\<rparr>
         \<lparr>archive = [\<lparr>name = ''A'', thought = ''B'', code = ''C'', generation = Generation 1,
          fitness = \<lparr>accuracy = 0.12, confidenceLow = 0, confidenceHigh = 0.4, evaluationCount = 5\<rparr>,
          id' = ''gen-1-1000'', createdAt = ''t'', enabled = False\<rparr>], archiveFile = NoFile\<rparr>))))"
proof -
  let ?m = "\<lparr>archive = [\<lparr>name = ''A'', thought = ''B'', code = ''C'', generation = Generation 1,
          fitness = \<lparr>accuracy = 0.12, confidenceLow = 0, confidenceHigh = 0.4, evaluationCount = 5\<rparr>,
          id' = ''gen-1-1000'', createdAt = ''t'', enabled = False\<rparr>], archiveFile = NoFile\<rparr>"
  have found: "findIndex (\<lambda>a. id' a = ''gen-1-1000'') (archive ?m) = Some 0"
    by simp
  from C10_update_ignores_enabled [OF found, of "\<lparr>success = True, accuracy = 1, errors = [], duration = 1\<rparr>"] found
  show ?thesis
    by (simp add: Let_def)
qed

subsection \<open>Adding a design\<close>

lemma digit_inj:
  assumes "i < 10" and "j < 10" and "''0123456789'' ! i = ''0123456789'' ! j"
  shows "i = j"
proof -
  have "distinct ''0123456789''" by simp
  then show ?thesis
    using assms by (simp add: nth_eq_iff_index_eq)
qed

lemma showNat_split:
  "showNat n = (if n < 10 then [] else showNat (n div 10)) @ [''0123456789'' ! (n mod 10)]"
  by (cases "n < 10") simp_all

lemma showNat_nonempty: "showNat n \<noteq> []"
  by (subst showNat_split) simp

lemma showNat_inj: "showNat a = showNat b \<Longrightarrow> a = b"
proof (induction a arbitrary: b rule: showNat.induct)
  case (1 a)
  from "1.prems" have eq:
    "(if a < 10 then [] else showNat (a div 10)) @ [''0123456789'' ! (a mod 10)]
       = (if b < 10 then [] else showNat (b div 10)) @ [''0123456789'' ! (b mod 10)]"
    using showNat_split by metis
  then have "''0123456789'' ! (a mod 10) = ''0123456789'' ! (b mod 10)"
    by simp
  then have low: "a mod 10 = b mod 10"
    by (intro digit_inj) simp_all
  from eq have high: "(if a < 10 then [] else showNat (a div 10))
                        = (if b < 10 then [] else showNat (b div 10))"
    by simp
  have "a div 10 = b div 10"
  proof (cases "a < 10")
    case True
    with high have "b < 10"
      using showNat_nonempty by (metis (full_types))
    with True show ?thesis by simp
  next
    case False
    with high have "\<not> b < 10"
      using showNat_nonempty by (metis (full_types))
    with False high "1.IH" show ?thesis by simp
  qed
  with low show ?case
    by (metis div_mult_mod_eq)
qed

lemma showNat_digits: "set (showNat n) \<subseteq> set ''0123456789''"
proof (induction n rule: showNat.induct)
  case (1 n)
  have "''0123456789'' ! (n mod 10) \<in> set ''0123456789''"
    by (intro nth_mem) simp
  with 1 show ?case
    by (subst showNat_split) auto
qed

lemma showGeneration_no_dash: "CHR ''-'' \<notin> set (showGeneration g)"
  using showNat_digits by (cases g) auto

lemma showGeneration_inj: "showGeneration g = showGeneration h \<Longrightarrow> g = h"
proof (cases g; cases h)
  fix n assume "g = Initial" "h = Generation n" "showGeneration g = showGeneration h"
  then have "CHR ''i'' \<in> set (showNat n)" by (metis list.set_intros(1) showGeneration.simps)
  then show "g = h" using showNat_digits by auto
next
  fix n assume "g = Generation n" "h = Initial" "showGeneration g = showGeneration h"
  then have "CHR ''i'' \<in> set (showNat n)" by (metis list.set_intros(1) showGeneration.simps)
  then show "g = h" using showNat_digits by auto
qed (auto dest: showNat_inj)

lemma split_at_dash:
  assumes "CHR ''-'' \<notin> set xs" and "CHR ''-'' \<notin> set us"
    and "xs @ CHR ''-'' # ys = us @ CHR ''-'' # vs"
  shows "xs = us \<and> ys = vs"
  using assms
proof (induction xs arbitrary: us)
  case Nil
  then show ?case by (cases us) auto
next
  case (Cons x xs)
  then show ?case by (cases us) auto
qed

lemma design_id_inj:
  assumes "''gen-'' @ showGeneration g @ ''-'' @ showNat t
         = ''gen-'' @ showGeneration h @ ''-'' @ showNat u"
  shows "g = h \<and> t = u"
proof -
  from assms have "showGeneration g @ CHR ''-'' # showNat t = showGeneration h @ CHR ''-'' # showNat u"
    by simp
  then have "showGeneration g = showGeneration h \<and> showNat t = showNat u"
    by (intro split_at_dash showGeneration_no_dash)
  then show ?thesis
    by (simp add: showGeneration_inj showNat_inj)
qed

lemma add_result:
  "add agent now stamp m =
     (length (archive m),
      \<lparr>archive = archive m @
         [\<lparr>name = name agent, thought = thought agent, code = code agent,
           generation = generation agent, fitness = fitness agent,
           id' = ''gen-'' @ showGeneration (generation agent) @ ''-'' @ showNat now,
           createdAt = stamp, enabled = True\<rparr>],
       archiveFile = Parsed (JsValue (AgentsArray (archive m @
         [\<lparr>name = name agent, thought = thought agent, code = code agent,
           generation = generation agent, fitness = fitness agent,
           id' = ''gen-'' @ showGeneration (generation agent) @ ''-'' @ showNat now,
           createdAt = stamp, enabled = True\<rparr>])))\<rparr>)"
  by (simp add: add_def Let_def save_def)

text \<open>
  Claim C8, as stated, fails in two places. \<^verbatim>\<open>add\<close> takes the fitness from the
  candidate (its parameter type has the field): a candidate that carries the fitness
  \<open>(0.9, 0.8, 1, 7)\<close> is stored with it, not with zeros. And the id is made of the
  generation and the clock alone: a candidate of generation 1 added at clock reading
  1000 gets the id \<^verbatim>\<open>gen-1-1000\<close> that a stored design already has.
\<close>

theorem C8_counterexample:
  "fitness (getAll (snd (add
       \<lparr>name = ''D'', thought = ''E'', code = ''F'', generation = Generation 1,
        fitness = \<lparr>accuracy = 0.9, confidenceLow = 0.8, confidenceHigh = 1, evaluationCount = 7\<rparr>\<rparr>
       1000 ''t''
       \<lparr>archive = [\<lparr>name = ''A'', thought = ''B'', code = ''C'', generation = Generation 1,
          fitness = \<lparr>accuracy = 0, confidenceLow = 0, confidenceHigh = 0, evaluationCount = 0\<rparr>,
          id' = ''gen-1-1000'', createdAt = ''t'', enabled = True\<rparr>], archiveFile = NoFile\<rparr>)) ! 1)
     = \<lparr>accuracy = 0.9, confidenceLow = 0.8, confidenceHigh = 1, evaluationCount = 7\<rparr>
   \<and> id' (getAll (snd (add
       \<lparr>name = ''D'', thought = ''E'', code = ''F'', generation = Generation 1,
        fitness = \<lparr>accuracy = 0.9, confidenceLow = 0.8, confidenceHigh = 1, evaluationCount = 7\<rparr>\<rparr>
       1000 ''t''
       \<lparr>archive = [\<lparr>name = ''A'', thought = ''B'', code = ''C'', generation = Generation 1,
          fitness = \<lparr>accuracy = 0, confidenceLow = 0, confidenceHigh = 0, evaluationCount = 0\<rparr>,
          id' = ''gen-1-1000'', createdAt = ''t'', enabled = True\<rparr>], archiveFile = NoFile\<rparr>)) ! 1)
     = id' (getAll
       \<lparr>archive = [\<lparr>name = ''A'', thought = ''B'', code = ''C'', generation = Generation 1,
          fitness = \<lparr>accuracy = 0, confidenceLow = 0, confidenceHigh = 0, evaluationCount = 0\<rparr>,
          id' = ''gen-1-1000'', createdAt = ''t'', enabled = True\<rparr>], archiveFile = NoFile\<rparr> ! 0)"
  by (simp add: add_result getAll_def)

text \<open>
  Claim C8, amended. The design that \<^verbatim>\<open>add\<close> returns is the last element of the archive
  afterwards (so \<^verbatim>\<open>getAll\<close> includes it). Its name, thought, code, generation and fitness
  are the candidate's (zeros when the candidate carries zeros, as the one of
  \<^verbatim>\<open>runGeneration\<close> does), its id is \<^verbatim>\<open>gen-\<close>, the generation, \<^verbatim>\<open>-\<close> and the reading of
  \<^verbatim>\<open>Date.now()\<close>, its timestamp is the current one, and it is enabled; the archive is
  written to the file before \<^verbatim>\<open>add\<close> returns. The id differs from the id that
  \<^verbatim>\<open>add\<close> gives for any other pair of generation and clock reading.
\<close>

theorem C8_add:
  "(case add agent now stamp m of (stored, m') \<Rightarrow>
      stored = length (archive m)
      \<and> getAll m' = archive m @ [getAll m' ! stored]
      \<and> Candidate.truncate (getAll m' ! stored) = agent
      \<and> fitness (getAll m' ! stored) = fitness agent
      \<and> id' (getAll m' ! stored)
            = ''gen-'' @ showGeneration (generation agent) @ ''-'' @ showNat now
      \<and> createdAt (getAll m' ! stored) = stamp
      \<and> enabled (getAll m' ! stored)
      \<and> archiveFile m' = Parsed (JsValue (AgentsArray (getAll m'))))
   \<and> (generation agent \<noteq> generation other \<or> now \<noteq> later \<longrightarrow>
        id' (getAll (snd (add agent now stamp m)) ! fst (add agent now stamp m))
          \<noteq> id' (getAll (snd (add other later stamp' n)) ! fst (add other later stamp' n)))"
proof -
  have "id' (getAll (snd (add agent now stamp m)) ! fst (add agent now stamp m))
          \<noteq> id' (getAll (snd (add other later stamp' n)) ! fst (add other later stamp' n))"
    if "generation agent \<noteq> generation other \<or> now \<noteq> later"
    using that design_id_inj [of "generation agent" now "generation other" later]
    by (auto simp: add_result getAll_def)
  then show ?thesis
    by (simp add: add_result getAll_def Candidate.defs)
qed

theorem C8_add_witness:
  "generation \<lparr>name = ''D'', thought = ''E'', code = ''F'', generation = Generation 1,
        fitness = \<lparr>accuracy = 0, confidenceLow = 0, confidenceHigh = 0, evaluationCount = 0\<rparr>\<rparr>
     \<noteq> generation \<lparr>name = ''D'', thought = ''E'', code = ''F'', generation = Generation 2,
        fitness = \<lparr>accuracy = 0, confidenceLow = 0, confidenceHigh = 0, evaluationCount = 0\<rparr>\<rparr>
   \<and> id' (getAll (snd (add \<lparr>name = ''D'', thought = ''E'', code = ''F'', generation = Generation 1,
        fitness = \<lparr>accuracy = 0, confidenceLow = 0, confidenceHigh = 0, evaluationCount = 0\<rparr>\<rparr>
         1000 ''t'' \<lparr>archive = [], archiveFile = NoFile\<rparr>)) ! 0) = ''gen-1-1000''
   \<and> id' (getAll (snd (add \<lparr>name = ''D'', thought = ''E'', code = ''F'', generation = Generation 2,
        fitness = \<lparr>accuracy = 0, confidenceLow = 0, confidenceHigh = 0, evaluationCount = 0\<rparr>\<rparr>
         1000 ''t'' \<lparr>archive = [], archiveFile = NoFile\<rparr>)) ! 0) = ''gen-2-1000''
   \<and> id' (getAll (snd (add \<lparr>name = ''D'', thought = ''E'', code = ''F'', generation = Generation 1,
        fitness = \<lparr>accuracy = 0, confidenceLow = 0, confidenceHigh = 0, evaluationCount = 0\<rparr>\<rparr>
         1000 ''t'' \<lparr>archive = [], archiveFile = NoFile\<rparr>)) ! 0)
       \<noteq> id' (getAll (snd (add \<lparr>name = ''D'', thought = ''E'', code = ''F'', generation = Generation 2,
        fitness = \<lparr>accuracy = 0, confidenceLow = 0, confidenceHigh = 0, evaluationCount = 0\<rparr>\<rparr>
         1000 ''t'' \<lparr>archive = [], archiveFile = NoFile\<rparr>)) ! 0)"
proof -
  let ?a = "\<lparr>name = ''D'', thought = ''E'', code = ''F'', generation = Generation 1,
        fitness = \<lparr>accuracy = 0, confidenceLow = 0, confidenceHigh = 0, evaluationCount = 0\<rparr>\<rparr>"
  let ?b = "\<lparr>name = ''D'', thought = ''E'', code = ''F'', generation = Generation 2,
        fitness = \<lparr>accuracy = 0, confidenceLow = 0, confidenceHigh = 0, evaluationCount = 0\<rparr>\<rparr>"
  have differ: "generation ?a \<noteq> generation ?b"
    by simp
  have first: "fst (add ?a 1000 ''t'' \<lparr>archive = [], archiveFile = NoFile\<rparr>) = 0"
    and second: "fst (add ?b 1000 ''t'' \<lparr>archive = [], archiveFile = NoFile\<rparr>) = 0"
    by (simp_all add: add_result)
  from differ C8_add [where agent = ?a and now = 1000 and stamp = "''t''"
      and m = "\<lparr>archive = [], archiveFile = NoFile\<rparr>" and other = ?b and later = 1000
      and stamp' = "''t''" and n = "\<lparr>archive = [], archiveFile = NoFile\<rparr>"]
  have "id' (getAll (snd (add ?a 1000 ''t'' \<lparr>archive = [], archiveFile = NoFile\<rparr>)) ! 0)
       \<noteq> id' (getAll (snd (add ?b 1000 ''t'' \<lparr>archive = [], archiveFile = NoFile\<rparr>)) ! 0)"
    unfolding first second by blast
  then show ?thesis
    by (simp add: add_result getAll_def)
qed

section \<open>Properties of the search\<close>

subsection \<open>One generation\<close>

lemma reflexion_Suc:
  "reflexion w (Suc n) start = reflexionRound w n (reflexion w n start)"
  by (simp add: reflexion_def)

lemma reflexionRound_rejected:
  "completeJson w calls = None \<Longrightarrow> reflexionRound w i (design, calls) = (design, calls + 1)"
  by (simp add: reflexionRound_def)

lemma reflexionRound_resolved:
  "completeJson w calls = Some refined \<Longrightarrow> reflexionRound w i (design, calls) = (refined, calls + 1)"
  by (simp add: reflexionRound_def)

lemma map_filter_snoc:
  "List.map_filter f (xs @ [x]) = List.map_filter f xs @ (case f x of None \<Rightarrow> [] | Some y \<Rightarrow> [y])"
  by (simp add: List.map_filter_def split: option.splits)

lemma reflexion_result:
  "reflexion w steps (design, calls)
     = (last (design # List.map_filter (completeJson w) [calls ..< calls + steps]), calls + steps)"
proof (induction steps)
  case 0
  then show ?case by (simp add: reflexion_def List.map_filter_def)
next
  case (Suc n)
  have upt: "[calls ..< calls + Suc n] = [calls ..< calls + n] @ [calls + n]"
    by simp
  show ?case
    unfolding reflexion_Suc Suc.IH upt map_filter_snoc
    by (cases "completeJson w (calls + n)")
       (simp_all add: reflexionRound_rejected reflexionRound_resolved)
qed

lemma runGeneration_rejected:
  assumes "completeJson w (llmCalls s) = None"
  shows "runGeneration w s
           = (None, s\<lparr>generationCounter := generationCounter s + 1, llmCalls := llmCalls s + 1\<rparr>)"
  using assms by (simp add: runGeneration_def Let_def)

lemma runGeneration_resolved:
  assumes "completeJson w (llmCalls s) = Some first"
  shows "runGeneration w s =
     (let final = last (first # List.map_filter (completeJson w)
                     [llmCalls s + 1 ..< llmCalls s + 1 + reflexionSteps (config s)]);
          g = generationCounter s + 1;
          (agent, m) = add \<lparr>name = name final, thought = thought final, code = code final,
                           generation = Generation g,
                           fitness = \<lparr>accuracy = 0, confidenceLow = 0, confidenceHigh = 0,
                                      evaluationCount = 0\<rparr>\<rparr>
                         (dateNow w g) (isoNow w g) (manager s)
      in (Some agent,
          s\<lparr>generationCounter := g,
            llmCalls := llmCalls s + 1 + reflexionSteps (config s),
            manager := m\<rparr>))"
  using assms by (simp add: runGeneration_def Let_def reflexion_result split: prod.splits)


text \<open>
  Claim C6. In \<^verbatim>\<open>runGeneration\<close>: when the initial \<^verbatim>\<open>completeJson\<close> call rejects, the call
  returns \<^verbatim>\<open>null\<close> and the archive manager (array and file) is as before. A reflexion
  round whose call rejects keeps the design it was given and counts as one call. When
  the initial call resolves, the generation succeeds: every one of the
  \<^verbatim>\<open>reflexionSteps\<close> rounds makes its call, the final design is the last response that
  resolved among the initial one and the rounds (so a rejected round changes nothing
  and later rounds still refine), and it is appended to the archive as a new enabled
  design of the current generation with zero fitness, and persisted.
\<close>

theorem C6_generation_failures:
  "(completeJson w (llmCalls s) = None \<longrightarrow>
      fst (runGeneration w s) = None \<and> manager (snd (runGeneration w s)) = manager s)
   \<and> (completeJson w calls = None \<longrightarrow>
      reflexionRound w i (design, calls) = (design, calls + 1))
   \<and> (completeJson w (llmCalls s) = Some first \<longrightarrow>
      (case runGeneration w s of (result, s') \<Rightarrow>
         result = Some (length (archive (manager s)))
         \<and> llmCalls s' = llmCalls s + 1 + reflexionSteps (config s)
         \<and> archive (manager s')
              = archive (manager s) @ [archive (manager s') ! length (archive (manager s))]
         \<and> Proposal.truncate (archive (manager s') ! length (archive (manager s)))
              = last (first # List.map_filter (completeJson w)
                        [llmCalls s + 1 ..< llmCalls s + 1 + reflexionSteps (config s)])
         \<and> generation (archive (manager s') ! length (archive (manager s)))
              = Generation (generationCounter s + 1)
         \<and> fitness (archive (manager s') ! length (archive (manager s)))
              = \<lparr>accuracy = 0, confidenceLow = 0, confidenceHigh = 0, evaluationCount = 0\<rparr>
         \<and> enabled (archive (manager s') ! length (archive (manager s)))
         \<and> archiveFile (manager s') = Parsed (JsValue (AgentsArray (archive (manager s'))))))"
proof -
  have rejected: "fst (runGeneration w s) = None \<and> manager (snd (runGeneration w s)) = manager s"
    if "completeJson w (llmCalls s) = None"
    by (simp add: runGeneration_rejected [OF that])
  have round: "reflexionRound w i (design, calls) = (design, calls + 1)"
    if "completeJson w calls = None"
    by (simp add: reflexionRound_rejected [OF that])
  have resolved: "(case runGeneration w s of (result, s') \<Rightarrow>
         result = Some (length (archive (manager s)))
         \<and> llmCalls s' = llmCalls s + 1 + reflexionSteps (config s)
         \<and> archive (manager s')
              = archive (manager s) @ [archive (manager s') ! length (archive (manager s))]
         \<and> Proposal.truncate (archive (manager s') ! length (archive (manager s)))
              = last (first # List.map_filter (completeJson w)
                        [llmCalls s + 1 ..< llmCalls s + 1 + reflexionSteps (config s)])
         \<and> generation (archive (manager s') ! length (archive (manager s)))
              = Generation (generationCounter s + 1)
         \<and> fitness (archive (manager s') ! length (archive (manager s)))
              = \<lparr>accuracy = 0, confidenceLow = 0, confidenceHigh = 0, evaluationCount = 0\<rparr>
         \<and> enabled (archive (manager s') ! length (archive (manager s)))
         \<and> archiveFile (manager s') = Parsed (JsValue (AgentsArray (archive (manager s')))))"
    if "completeJson w (llmCalls s) = Some first"
    by (simp add: runGeneration_resolved [OF that] Let_def add_result Proposal.defs)
  from rejected round resolved show ?thesis
    by blast
qed

theorem C6_generation_failures_witness:
  "completeJson
        \<lparr>completeJson = (\<lambda>n. None),
         evaluate = (\<lambda>n c. Some \<lparr>success = True, accuracy = 0.5, errors = [], duration = 1\<rparr>),
         dateNow = (\<lambda>g. 1000 + g), isoNow = (\<lambda>g. ''t'')\<rparr>
        (llmCalls \<lparr>manager = \<lparr>archive = [], archiveFile = NoFile\<rparr>, generationCounter = 0,
          config = \<lparr>maxGenerations = 10, evaluationsPerAgent = 5, reflexionSteps = 2,
                    minFitnessThreshold = 0.3\<rparr>,
          llmCalls = 0, evaluatorCalls = 0\<rparr>) = None
   \<and> fst (runGeneration
        \<lparr>completeJson = (\<lambda>n. None),
         evaluate = (\<lambda>n c. Some \<lparr>success = True, accuracy = 0.5, errors = [], duration = 1\<rparr>),
         dateNow = (\<lambda>g. 1000 + g), isoNow = (\<lambda>g. ''t'')\<rparr>
        \<lparr>manager = \<lparr>archive = [], archiveFile = NoFile\<rparr>, generationCounter = 0,
          config = \<lparr>maxGenerations = 10, evaluationsPerAgent = 5, reflexionSteps = 2,
                    minFitnessThreshold = 0.3\<rparr>,
          llmCalls = 0, evaluatorCalls = 0\<rparr>) = None
   \<and> manager (snd (runGeneration
        \<lparr>completeJson = (\<lambda>n. None),
         evaluate = (\<lambda>n c. Some \<lparr>success = True, accuracy = 0.5, errors = [], duration = 1\<rparr>),
         dateNow = (\<lambda>g. 1000 + g), isoNow = (\<lambda>g. ''t'')\<rparr>
        \<lparr>manager = \<lparr>archive = [], archiveFile = NoFile\<rparr>, generationCounter = 0,
          config = \<lparr>maxGenerations = 10, evaluationsPerAgent = 5, reflexionSteps = 2,
                    minFitnessThreshold = 0.3\<rparr>,
          llmCalls = 0, evaluatorCalls = 0\<rparr>))
       = manager \<lparr>manager = \<lparr>archive = [], archiveFile = NoFile\<rparr>, generationCounter = 0,
          config = \<lparr>maxGenerations = 10, evaluationsPerAgent = 5, reflexionSteps = 2,
                    minFitnessThreshold = 0.3\<rparr>,
          llmCalls = 0, evaluatorCalls = 0\<rparr>
   \<and> completeJson
        \<lparr>completeJson = (\<lambda>n. if n = 0 then Some \<lparr>name = ''P0'', thought = ''T0'', code = ''C0''\<rparr>
                          else if n = 1 then Some \<lparr>name = ''P1'', thought = ''T1'', code = ''C1''\<rparr>
                          else None),
         evaluate = (\<lambda>n c. Some \<lparr>success = True, accuracy = 0.5, errors = [], duration = 1\<rparr>),
         dateNow = (\<lambda>g. 1000 + g), isoNow = (\<lambda>g. ''t'')\<rparr>
        (llmCalls \<lparr>manager = \<lparr>archive = [], archiveFile = NoFile\<rparr>, generationCounter = 0,
          config = \<lparr>maxGenerations = 10, evaluationsPerAgent = 5, reflexionSteps = 2,
                    minFitnessThreshold = 0.3\<rparr>,
          llmCalls = 0, evaluatorCalls = 0\<rparr>)
       = Some \<lparr>name = ''P0'', thought = ''T0'', code = ''C0''\<rparr>
   \<and> completeJson
        \<lparr>completeJson = (\<lambda>n. if n = 0 then Some \<lparr>name = ''P0'', thought = ''T0'', code = ''C0''\<rparr>
                          else if n = 1 then Some \<lparr>name = ''P1'', thought = ''T1'', code = ''C1''\<rparr>
                          else None),
         evaluate = (\<lambda>n c. Some \<lparr>success = True, accuracy = 0.5, errors = [], duration = 1\<rparr>),
         dateNow = (\<lambda>g. 1000 + g), isoNow = (\<lambda>g. ''t'')\<rparr> 2 = None
   \<and> fst (runGeneration
        \<lparr>completeJson = (\<lambda>n. if n = 0 then Some \<lparr>name = ''P0'', thought = ''T0'', code = ''C0''\<rparr>
                          else if n = 1 then Some \<lparr>name = ''P1'', thought = ''T1'', code = ''C1''\<rparr>
                          else None),
         evaluate = (\<lambda>n c. Some \<lparr>success = True, accuracy = 0.5, errors = [], duration = 1\<rparr>),
         dateNow = (\<lambda>g. 1000 + g), isoNow = (\<lambda>g. ''t'')\<rparr>
        \<lparr>manager = \<lparr>archive = [], archiveFile = NoFile\<rparr>, generationCounter = 0,
          config = \<lparr>maxGenerations = 10, evaluationsPerAgent = 5, reflexionSteps = 2,
                    minFitnessThreshold = 0.3\<rparr>,
          llmCalls = 0, evaluatorCalls = 0\<rparr>) = Some 0
   \<and> llmCalls (snd (runGeneration
        \<lparr>completeJson = (\<lambda>n. if n = 0 then Some \<lparr>name = ''P0'', thought = ''T0'', code = ''C0''\<rparr>
                          else if n = 1 then Some \<lparr>name = ''P1'', thought = ''T1'', code = ''C1''\<rparr>
                          else None),
         evaluate = (\<lambda>n c. Some \<lparr>success = True, accuracy = 0.5, errors = [], duration = 1\<rparr>),
         dateNow = (\<lambda>g. 1000 + g), isoNow = (\<lambda>g. ''t'')\<rparr>
        \<lparr>manager = \<lparr>archive = [], archiveFile = NoFile\<rparr>, generationCounter = 0,
          config = \<lparr>maxGenerations = 10, evaluationsPerAgent = 5, reflexionSteps = 2,
                    minFitnessThreshold = 0.3\<rparr>,
          llmCalls = 0, evaluatorCalls = 0\<rparr>)) = 3
   \<and> Proposal.truncate (archive (manager (snd (runGeneration
        \<lparr>completeJson = (\<lambda>n. if n = 0 then Some \<lparr>name = ''P0'', thought = ''T0'', code = ''C0''\<rparr>
                          else if n = 1 then Some \<lparr>name = ''P1'', thought = ''T1'', code = ''C1''\<rparr>
                          else None),
         evaluate = (\<lambda>n c. Some \<lparr>success = True, accuracy = 0.5, errors = [], duration = 1\<rparr>),
         dateNow = (\<lambda>g. 1000 + g), isoNow = (\<lambda>g. ''t'')\<rparr>
        \<lparr>manager = \<lparr>archive = [], archiveFile = NoFile\<rparr>, generationCounter = 0,
          config = \<lparr>maxGenerations = 10, evaluationsPerAgent = 5, reflexionSteps = 2,
                    minFitnessThreshold = 0.3\<rparr>,
          llmCalls = 0, evaluatorCalls = 0\<rparr>))) ! 0)
       = \<lparr>name = ''P1'', thought = ''T1'', code = ''C1''\<rparr>"
proof -
  let ?wf = "\<lparr>completeJson = (\<lambda>n. None),
         evaluate = (\<lambda>n c. Some \<lparr>success = True, accuracy = 0.5, errors = [], duration = 1\<rparr>),
         dateNow = (\<lambda>g. 1000 + g), isoNow = (\<lambda>g. ''t'')\<rparr>"
  let ?w = "\<lparr>completeJson = (\<lambda>n. if n = 0 then Some \<lparr>name = ''P0'', thought = ''T0'', code = ''C0''\<rparr>
                          else if n = 1 then Some \<lparr>name = ''P1'', thought = ''T1'', code = ''C1''\<rparr>
                          else None),
         evaluate = (\<lambda>n c. Some \<lparr>success = True, accuracy = 0.5, errors = [], duration = 1\<rparr>),
         dateNow = (\<lambda>g. 1000 + g), isoNow = (\<lambda>g. ''t'')\<rparr>"
  let ?s = "\<lparr>manager = \<lparr>archive = [], archiveFile = NoFile\<rparr>, generationCounter = 0,
          config = \<lparr>maxGenerations = 10, evaluationsPerAgent = 5, reflexionSteps = 2,
                    minFitnessThreshold = 0.3\<rparr>,
          llmCalls = 0, evaluatorCalls = 0\<rparr>"
  have calls: "llmCalls ?s = 0" and steps: "reflexionSteps (config ?s) = 2"
    by simp_all
  have size: "length (archive (manager ?s)) = 0"
    by simp
  have none: "completeJson ?wf (llmCalls ?s) = None"
    by simp
  have some: "completeJson ?w (llmCalls ?s) = Some \<lparr>name = ''P0'', thought = ''T0'', code = ''C0''\<rparr>"
    by (simp add: calls)
  have last: "completeJson ?w 2 = None"
    by simp
  have final: "last (\<lparr>name = ''P0'', thought = ''T0'', code = ''C0''\<rparr>
                 # List.map_filter (completeJson ?w) [llmCalls ?s + 1 ..< llmCalls ?s + 1 + reflexionSteps (config ?s)])
               = \<lparr>name = ''P1'', thought = ''T1'', code = ''C1''\<rparr>"
    unfolding calls steps by (simp add: List.map_filter_def upt_rec)
  from C6_generation_failures [of ?wf ?s] none
  have one: "fst (runGeneration ?wf ?s) = None \<and> manager (snd (runGeneration ?wf ?s)) = manager ?s"
    by blast
  from C6_generation_failures [of ?w ?s _ _ _ "\<lparr>name = ''P0'', thought = ''T0'', code = ''C0''\<rparr>"] some
  have two: "fst (runGeneration ?w ?s) = Some 0
     \<and> llmCalls (snd (runGeneration ?w ?s)) = 3
     \<and> Proposal.truncate (archive (manager (snd (runGeneration ?w ?s))) ! 0)
         = \<lparr>name = ''P1'', thought = ''T1'', code = ''C1''\<rparr>"
    unfolding final size unfolding calls steps
    by (cases "runGeneration ?w ?s") simp
  from none some last one two show ?thesis
    by blast
qed

subsection \<open>The search loop\<close>






















section \<open>Properties of the persisted document\<close>

lemma representable_round_trip:
  "representable v \<Longrightarrow> \<exists>j. JSON_stringify v = Some j \<and> JSON_parse j = v"
proof (induction v)
  case (JNumber n)
  then show ?case by (cases n) simp_all
next
  case (JArray vs)
  have each: "\<forall>v \<in> set vs. \<exists>j. JSON_stringify v = Some j \<and> JSON_parse j = v"
    using JArray by (auto simp: list_all_iff)
  have "map (JSON_parse \<circ> (\<lambda>written. case written of Some j \<Rightarrow> j | None \<Rightarrow> JsonNull)
              \<circ> JSON_stringify) vs = map id vs"
    by (rule map_cong [OF refl]) (use each in fastforce)
  then show ?case by (simp add: comp_def)
next
  case (JObject ps)
  have each: "\<forall>(k, v) \<in> set ps. \<exists>j. JSON_stringify v = Some j \<and> JSON_parse j = v"
    using JObject by (fastforce simp: list_all_iff)
  have "map (map_prod id JSON_parse)
          (List.map_filter (\<lambda>(k, written). map_option (Pair k) written)
             (map (map_prod id JSON_stringify) qs)) = qs"
    if "\<forall>(k, v) \<in> set qs. \<exists>j. JSON_stringify v = Some j \<and> JSON_parse j = v" for qs
    using that by (induction qs) (auto simp: List.map_filter_simps)
  from this [OF each] show ?case by simp
qed simp_all

lemma reload_representable:
  assumes "list_all representable vs"
  shows "reload vs = Some vs"
proof -
  have "representable (JObject [(''agents'', JArray vs)])"
    using assms by (simp add: list_all_iff)
  then obtain j where j: "JSON_stringify (JObject [(''agents'', JArray vs)]) = Some j"
    and parsed: "JSON_parse j = JObject [(''agents'', JArray vs)]"
    using representable_round_trip by blast
  show ?thesis
    unfolding reload_def savedDocument_def j
    by (simp add: loadedArchive_def parsed property_def)
qed

lemma designValue_representable: "representable (designValue a)"
  by (simp add: designValue_def designObject_def fitnessObject_def numbers_def
        generationValue_def split: generation_tag.splits)

lemma designValue_inject: "designValue a = designValue b \<longleftrightarrow> a = b"
proof
  assume eq: "designValue a = designValue b"
  have gen: "generation a = generation b"
    using eq by (cases "generation a"; cases "generation b")
      (simp_all add: designValue_def designObject_def generationValue_def)
  have fit: "fitness a = fitness b"
    using eq by (cases "fitness a"; cases "fitness b")
      (simp add: designValue_def designObject_def fitnessObject_def numbers_def)
  show "a = b"
    using eq gen fit by (cases a; cases b) (simp add: designValue_def designObject_def)
qed simp

lemma stringify_number:
  "JSON_parse (case n of Finite x \<Rightarrow> JsonNumber x | NaN \<Rightarrow> JsonNull) = readNumber n"
  by (cases n) (simp_all add: readNumber_def)

lemma stringify_design:
  "\<exists>j. JSON_stringify (designObject a (fitnessObject f)) = Some j
       \<and> JSON_parse j = designObject a (readFitness f)"
  by (cases "generation a")
    (simp_all add: designObject_def fitnessObject_def readFitness_def generationValue_def
       List.map_filter_simps stringify_number)

lemma reload_designs:
  "reload (map (\<lambda>(a, f). designObject a (fitnessObject f)) xs)
     = Some (map (\<lambda>(a, f). designObject a (readFitness f)) xs)"
proof -
  have "map (JSON_parse \<circ> (\<lambda>written. case written of Some j \<Rightarrow> j | None \<Rightarrow> JsonNull)
              \<circ> JSON_stringify \<circ> (\<lambda>(a, f). designObject a (fitnessObject f))) xs
          = map (\<lambda>(a, f). designObject a (readFitness f)) xs"
  proof (rule map_cong [OF refl])
    fix x assume "x \<in> set xs"
    obtain a f where x: "x = (a, f)" by (cases x)
    obtain j where "JSON_stringify (designObject a (fitnessObject f)) = Some j"
      and "JSON_parse j = designObject a (readFitness f)"
      using stringify_design by blast
    then show "(JSON_parse \<circ> (\<lambda>written. case written of Some j \<Rightarrow> j | None \<Rightarrow> JsonNull)
              \<circ> JSON_stringify \<circ> (\<lambda>(a, f). designObject a (fitnessObject f))) x
            = (case x of (a, f) \<Rightarrow> designObject a (readFitness f))"
      by (simp add: x)
  qed
  then show ?thesis
    by (simp add: reload_def savedDocument_def loadedArchive_def property_def
          List.map_filter_simps comp_def)
qed

lemma parse_representable: "representable (JSON_parse j)"
  by (induction j) (auto simp: list_all_iff)

lemma loadedArchive_representable: "list_all representable (loadedArchive doc)"
proof -
  have "representable (JSON_parse doc)"
    by (rule parse_representable)
  then have "representable (property ''agents'' (JSON_parse doc))
             \<or> property ''agents'' (JSON_parse doc) = JUndefined"
    by (cases "JSON_parse doc")
      (auto simp: property_def list_all_iff split: option.splits dest!: map_of_SomeD)
  then show ?thesis
    by (cases "property ''agents'' (JSON_parse doc)") (simp_all add: loadedArchive_def list_all_iff)
qed

lemma reload_typed: "reload (map designValue ds) = Some (map designValue ds)"
  by (rule reload_representable) (simp add: list_all_iff designValue_representable)

lemma designValues_inject: "map designValue ds' = map designValue ds \<longleftrightarrow> ds' = ds"
proof -
  have "inj designValue"
    by (rule injI) (simp add: designValue_inject)
  then show ?thesis
    by (rule inj_map_eq_map)
qed

lemma recordNumbers_finite:
  fixes f :: FitnessNumbers and m x :: real
  assumes "accuracy' f = Finite m"
  defines "mean \<equiv> (m * real (evaluationCount' f) + x) / real (evaluationCount' f + 1)"
  shows "accuracy' (recordNumbers (Finite x) f) = Finite mean"
    and "evaluationCount' (recordNumbers (Finite x) f) = evaluationCount' f + 1"
    and "confidenceLow' (recordNumbers (Finite x) f)
           = (if mean * (1 - mean) / real (evaluationCount' f + 1) < 0 then NaN
              else Finite (max 0 (mean - 1.96 * sqrt (mean * (1 - mean)
                                          / real (evaluationCount' f + 1)))))"
    and "confidenceHigh' (recordNumbers (Finite x) f)
           = (if mean * (1 - mean) / real (evaluationCount' f + 1) < 0 then NaN
              else Finite (min 1 (mean + 1.96 * sqrt (mean * (1 - mean)
                                          / real (evaluationCount' f + 1)))))"
  using assms(1) unfolding mean_def
  by (simp_all add: recordNumbers_def Let_def arith_def)

lemma variance_sign:
  fixes mean :: real
  shows "mean * (1 - mean) / real (n + 1) < 0 \<longleftrightarrow> mean < 0 \<or> 1 < mean"
proof -
  have "mean * (1 - mean) / real (n + 1) < 0 \<longleftrightarrow> mean * (1 - mean) < 0"
    by (simp add: divide_less_0_iff)
  also have "\<dots> \<longleftrightarrow> mean < 0 \<or> 1 < mean"
    by (auto simp: mult_less_0_iff)
  finally show ?thesis .
qed

lemma recordNumbers_agrees:
  assumes "0 \<le> Fitness.accuracy (fitness (recordEvaluation r a))"
    and "Fitness.accuracy (fitness (recordEvaluation r a)) \<le> 1"
  shows "recordNumbers (Finite (EvaluationResult.accuracy r)) (numbers (fitness a))
           = numbers (fitness (recordEvaluation r a))"
proof -
  define f where "f = numbers (fitness a)"
  have acc: "accuracy' f = Finite (Fitness.accuracy (fitness a))"
    and count: "evaluationCount' f = evaluationCount (fitness a)"
    by (simp_all add: f_def numbers_def)
  define mean where "mean = (Fitness.accuracy (fitness a) * real (evaluationCount (fitness a))
                      + EvaluationResult.accuracy r) / real (evaluationCount (fitness a) + 1)"
  have mean: "Fitness.accuracy (fitness (recordEvaluation r a)) = mean"
    unfolding mean_def by (rule recordEvaluation_accuracy)
  have sign: "\<not> mean * (1 - mean) / real (evaluationCount (fitness a) + 1) < 0"
    using assms unfolding mean variance_sign by simp
  have lo: "confidenceLow (fitness (recordEvaluation r a))
              = max 0 (mean - 1.96 * sqrt (mean * (1 - mean)
                                     / real (evaluationCount (fitness a) + 1)))"
    and hi: "confidenceHigh (fitness (recordEvaluation r a))
              = min 1 (mean + 1.96 * sqrt (mean * (1 - mean)
                                     / real (evaluationCount (fitness a) + 1)))"
    unfolding mean_def by (simp_all add: recordEvaluation_def Let_def)
  have "accuracy' (recordNumbers (Finite (EvaluationResult.accuracy r)) f) = Finite mean"
    "evaluationCount' (recordNumbers (Finite (EvaluationResult.accuracy r)) f)
       = evaluationCount (fitness a) + 1"
    "confidenceLow' (recordNumbers (Finite (EvaluationResult.accuracy r)) f)
       = Finite (confidenceLow (fitness (recordEvaluation r a)))"
    "confidenceHigh' (recordNumbers (Finite (EvaluationResult.accuracy r)) f)
       = Finite (confidenceHigh (fitness (recordEvaluation r a)))"
    using recordNumbers_finite [OF acc, of "EvaluationResult.accuracy r"] sign
    unfolding count lo hi mean_def by simp_all
  then show ?thesis
    unfolding f_def [symmetric]
    by (simp add: numbers_def mean recordEvaluation_count)
qed

lemma recordNumbers_NaN:
  assumes "Fitness.accuracy (fitness (recordEvaluation r a)) < 0
           \<or> 1 < Fitness.accuracy (fitness (recordEvaluation r a))"
  shows "recordNumbers (Finite (EvaluationResult.accuracy r)) (numbers (fitness a))
           = \<lparr>accuracy' = Finite (Fitness.accuracy (fitness (recordEvaluation r a))),
              confidenceLow' = NaN, confidenceHigh' = NaN,
              evaluationCount' = evaluationCount (fitness a) + 1\<rparr>"
proof -
  define f where "f = numbers (fitness a)"
  have acc: "accuracy' f = Finite (Fitness.accuracy (fitness a))"
    and count: "evaluationCount' f = evaluationCount (fitness a)"
    by (simp_all add: f_def numbers_def)
  define mean where "mean = (Fitness.accuracy (fitness a) * real (evaluationCount (fitness a))
                      + EvaluationResult.accuracy r) / real (evaluationCount (fitness a) + 1)"
  have mean: "Fitness.accuracy (fitness (recordEvaluation r a)) = mean"
    unfolding mean_def by (rule recordEvaluation_accuracy)
  have sign: "mean * (1 - mean) / real (evaluationCount (fitness a) + 1) < 0"
    using assms unfolding mean variance_sign by simp
  have "accuracy' (recordNumbers (Finite (EvaluationResult.accuracy r)) f) = Finite mean"
    "evaluationCount' (recordNumbers (Finite (EvaluationResult.accuracy r)) f)
       = evaluationCount (fitness a) + 1"
    "confidenceLow' (recordNumbers (Finite (EvaluationResult.accuracy r)) f) = NaN"
    "confidenceHigh' (recordNumbers (Finite (EvaluationResult.accuracy r)) f) = NaN"
    using recordNumbers_finite [OF acc, of "EvaluationResult.accuracy r"] sign
    unfolding count mean_def by simp_all
  then show ?thesis
    unfolding f_def [symmetric] mean by (cases "recordNumbers (Finite (EvaluationResult.accuracy r)) f") simp
qed

text \<open>
  Claim C9, as the specification states it, does not hold of every archive state. A
  design that has never been evaluated gets one evaluation with accuracy 2: its mean
  is 2, the variance estimate is negative and both bounds are \<^verbatim>\<open>NaN\<close>. \<^verbatim>\<open>save\<close> writes
  them as \<^verbatim>\<open>null\<close>, and what a new \<^verbatim>\<open>ArchiveManager\<close> loads has \<^verbatim>\<open>null\<close> for both bounds:
  not the fitness values of the archive that was persisted.
\<close>

theorem C9_counterexample:
  "recordNumbers (Finite (EvaluationResult.accuracy \<lparr>success = True, accuracy = 2, errors = [], duration = 1\<rparr>))
      (numbers (fitness
        \<lparr>name = ''P'', thought = ''T'', code = ''C'', generation = Generation 1,
          fitness = \<lparr>accuracy = 0, confidenceLow = 0, confidenceHigh = 0, evaluationCount = 0\<rparr>,
          id' = ''gen-1-1001'', createdAt = ''t'', enabled = True\<rparr>))
     = \<lparr>accuracy' = Finite 2, confidenceLow' = NaN, confidenceHigh' = NaN,
            evaluationCount' = 1\<rparr>
   \<and> property ''confidenceLow'' (property ''fitness''
        (designObject
          \<lparr>name = ''P'', thought = ''T'', code = ''C'', generation = Generation 1,
          fitness = \<lparr>accuracy = 0, confidenceLow = 0, confidenceHigh = 0, evaluationCount = 0\<rparr>,
          id' = ''gen-1-1001'', createdAt = ''t'', enabled = True\<rparr>
          (fitnessObject
            \<lparr>accuracy' = Finite 2, confidenceLow' = NaN, confidenceHigh' = NaN,
            evaluationCount' = 1\<rparr>)))
     = JNumber NaN
   \<and> reload [designObject
        \<lparr>name = ''P'', thought = ''T'', code = ''C'', generation = Generation 1,
          fitness = \<lparr>accuracy = 0, confidenceLow = 0, confidenceHigh = 0, evaluationCount = 0\<rparr>,
          id' = ''gen-1-1001'', createdAt = ''t'', enabled = True\<rparr>
        (fitnessObject
          \<lparr>accuracy' = Finite 2, confidenceLow' = NaN, confidenceHigh' = NaN,
            evaluationCount' = 1\<rparr>)]
     = Some [designObject
        \<lparr>name = ''P'', thought = ''T'', code = ''C'', generation = Generation 1,
          fitness = \<lparr>accuracy = 0, confidenceLow = 0, confidenceHigh = 0, evaluationCount = 0\<rparr>,
          id' = ''gen-1-1001'', createdAt = ''t'', enabled = True\<rparr>
        (JObject [(''accuracy'', JNumber (Finite 2)), (''confidenceLow'', JNull),
                     (''confidenceHigh'', JNull), (''evaluationCount'', JNumber (Finite 1))])]
   \<and> reload [designObject
        \<lparr>name = ''P'', thought = ''T'', code = ''C'', generation = Generation 1,
          fitness = \<lparr>accuracy = 0, confidenceLow = 0, confidenceHigh = 0, evaluationCount = 0\<rparr>,
          id' = ''gen-1-1001'', createdAt = ''t'', enabled = True\<rparr>
        (fitnessObject
          \<lparr>accuracy' = Finite 2, confidenceLow' = NaN, confidenceHigh' = NaN,
            evaluationCount' = 1\<rparr>)]
     \<noteq> Some [designObject
        \<lparr>name = ''P'', thought = ''T'', code = ''C'', generation = Generation 1,
          fitness = \<lparr>accuracy = 0, confidenceLow = 0, confidenceHigh = 0, evaluationCount = 0\<rparr>,
          id' = ''gen-1-1001'', createdAt = ''t'', enabled = True\<rparr>
        (fitnessObject
          \<lparr>accuracy' = Finite 2, confidenceLow' = NaN, confidenceHigh' = NaN,
            evaluationCount' = 1\<rparr>)]"
proof -
  define a where "a = \<lparr>name = ''P'', thought = ''T'', code = ''C'', generation = Generation 1,
          fitness = \<lparr>accuracy = 0, confidenceLow = 0, confidenceHigh = 0, evaluationCount = 0\<rparr>,
          id' = ''gen-1-1001'', createdAt = ''t'', enabled = True\<rparr>"
  define f where "f = \<lparr>accuracy' = Finite 2, confidenceLow' = NaN, confidenceHigh' = NaN,
            evaluationCount' = 1\<rparr>"
  have recorded: "recordNumbers (Finite (EvaluationResult.accuracy \<lparr>success = True, accuracy = 2, errors = [], duration = 1\<rparr>))
      (numbers (fitness a)) = f"
    by (simp add: a_def f_def recordNumbers_def numbers_def Let_def arith_def)
  have held: "property ''confidenceLow'' (property ''fitness'' (designObject a (fitnessObject f)))
      = JNumber NaN"
    by (simp add: property_def designObject_def fitnessObject_def f_def)
  have "reload (map (\<lambda>(a, f). designObject a (fitnessObject f)) [(a, f)])
      = Some (map (\<lambda>(a, f). designObject a (readFitness f)) [(a, f)])"
    by (rule reload_designs)
  then have reloaded: "reload [designObject a (fitnessObject f)]
      = Some [designObject a (JObject [(''accuracy'', JNumber (Finite 2)), (''confidenceLow'', JNull),
                     (''confidenceHigh'', JNull), (''evaluationCount'', JNumber (Finite 1))])]"
    by (simp add: readFitness_def readNumber_def f_def)
  have differs: "reload [designObject a (fitnessObject f)] \<noteq> Some [designObject a (fitnessObject f)]"
    unfolding reloaded by (simp add: designObject_def fitnessObject_def f_def)
  from recorded held reloaded differs show ?thesis
    unfolding a_def f_def by blast
qed

text \<open>
  Claim C9, amended. An archive whose fitness numbers are all real numbers, as in the
  model of the archive so far, comes back as it was persisted: the array loaded holds
  the objects of the same designs, in order, so the same ids and the same fitness
  values (the first two parts; the second says that the object of a design determines
  the design). More generally an array of values without \<^verbatim>\<open>undefined\<close> and \<^verbatim>\<open>NaN\<close> comes
  back unchanged, and so does every array that was itself loaded from a document. For designs whose fitness may hold \<^verbatim>\<open>NaN\<close>, every field comes back but
  those: each \<^verbatim>\<open>NaN\<close> comes back as \<^verbatim>\<open>null\<close>. The last two parts say when
  \<^verbatim>\<open>updateFitness\<close> produces such numbers: while the new mean lies in \<open>[0, 1]\<close> the
  numbers are those of the model over the reals; when it does not, both bounds are
  \<^verbatim>\<open>NaN\<close>.
\<close>

theorem C9_round_trip:
  "reload (map designValue ds) = Some (map designValue ds)
   \<and> (map designValue ds' = map designValue ds \<longrightarrow> ds' = ds)
   \<and> (list_all representable vs \<longrightarrow> reload vs = Some vs)
   \<and> reload (loadedArchive doc) = Some (loadedArchive doc)
   \<and> reload (map (\<lambda>(a, f). designObject a (fitnessObject f)) xs)
       = Some (map (\<lambda>(a, f). designObject a (readFitness f)) xs)
   \<and> (0 \<le> Fitness.accuracy (fitness (recordEvaluation r a))
        \<and> Fitness.accuracy (fitness (recordEvaluation r a)) \<le> 1 \<longrightarrow>
      recordNumbers (Finite (EvaluationResult.accuracy r)) (numbers (fitness a))
        = numbers (fitness (recordEvaluation r a)))
   \<and> (Fitness.accuracy (fitness (recordEvaluation r a)) < 0
        \<or> 1 < Fitness.accuracy (fitness (recordEvaluation r a)) \<longrightarrow>
      recordNumbers (Finite (EvaluationResult.accuracy r)) (numbers (fitness a))
        = \<lparr>accuracy' = Finite (Fitness.accuracy (fitness (recordEvaluation r a))),
           confidenceLow' = NaN, confidenceHigh' = NaN,
           evaluationCount' = evaluationCount (fitness a) + 1\<rparr>)"
  using reload_typed [of ds] designValues_inject [of ds' ds] reload_representable [of vs]
    reload_representable [OF loadedArchive_representable, of doc]
    reload_designs [of xs] recordNumbers_agrees [of r a] recordNumbers_NaN [of r a]
  by blast

theorem C9_round_trip_witness:
  "reload (map designValue
      [\<lparr>name = ''P'', thought = ''T'', code = ''C'', generation = Generation 1,
          fitness = \<lparr>accuracy = 0, confidenceLow = 0, confidenceHigh = 0, evaluationCount = 0\<rparr>,
          id' = ''gen-1-1001'', createdAt = ''t'', enabled = True\<rparr>])
     = Some (map designValue
      [\<lparr>name = ''P'', thought = ''T'', code = ''C'', generation = Generation 1,
          fitness = \<lparr>accuracy = 0, confidenceLow = 0, confidenceHigh = 0, evaluationCount = 0\<rparr>,
          id' = ''gen-1-1001'', createdAt = ''t'', enabled = True\<rparr>])
   \<and> list_all representable [JString ''x'', JNumber (Finite 1), JArray [JNull, JBoolean True]]
   \<and> reload [JString ''x'', JNumber (Finite 1), JArray [JNull, JBoolean True]]
       = Some [JString ''x'', JNumber (Finite 1), JArray [JNull, JBoolean True]]
   \<and> reload [designObject
        \<lparr>name = ''P'', thought = ''T'', code = ''C'', generation = Generation 1,
          fitness = \<lparr>accuracy = 0, confidenceLow = 0, confidenceHigh = 0, evaluationCount = 0\<rparr>,
          id' = ''gen-1-1001'', createdAt = ''t'', enabled = True\<rparr>
        (fitnessObject
          \<lparr>accuracy' = Finite 2, confidenceLow' = NaN, confidenceHigh' = NaN,
            evaluationCount' = 1\<rparr>)]
     = Some [designObject
        \<lparr>name = ''P'', thought = ''T'', code = ''C'', generation = Generation 1,
          fitness = \<lparr>accuracy = 0, confidenceLow = 0, confidenceHigh = 0, evaluationCount = 0\<rparr>,
          id' = ''gen-1-1001'', createdAt = ''t'', enabled = True\<rparr>
        (JObject [(''accuracy'', JNumber (Finite 2)), (''confidenceLow'', JNull),
                     (''confidenceHigh'', JNull), (''evaluationCount'', JNumber (Finite 1))])]
   \<and> Fitness.accuracy (fitness (recordEvaluation
        \<lparr>success = True, accuracy = 0.5, errors = [], duration = 1\<rparr>
        \<lparr>name = ''P'', thought = ''T'', code = ''C'', generation = Generation 1,
          fitness = \<lparr>accuracy = 0, confidenceLow = 0, confidenceHigh = 0, evaluationCount = 0\<rparr>,
          id' = ''gen-1-1001'', createdAt = ''t'', enabled = True\<rparr>)) = 0.5
   \<and> recordNumbers (Finite 0.5)
        (numbers (fitness
          \<lparr>name = ''P'', thought = ''T'', code = ''C'', generation = Generation 1,
          fitness = \<lparr>accuracy = 0, confidenceLow = 0, confidenceHigh = 0, evaluationCount = 0\<rparr>,
          id' = ''gen-1-1001'', createdAt = ''t'', enabled = True\<rparr>))
     = numbers (fitness (recordEvaluation
        \<lparr>success = True, accuracy = 0.5, errors = [], duration = 1\<rparr>
        \<lparr>name = ''P'', thought = ''T'', code = ''C'', generation = Generation 1,
          fitness = \<lparr>accuracy = 0, confidenceLow = 0, confidenceHigh = 0, evaluationCount = 0\<rparr>,
          id' = ''gen-1-1001'', createdAt = ''t'', enabled = True\<rparr>))
   \<and> Fitness.accuracy (fitness (recordEvaluation
        \<lparr>success = True, accuracy = 2, errors = [], duration = 1\<rparr>
        \<lparr>name = ''P'', thought = ''T'', code = ''C'', generation = Generation 1,
          fitness = \<lparr>accuracy = 0, confidenceLow = 0, confidenceHigh = 0, evaluationCount = 0\<rparr>,
          id' = ''gen-1-1001'', createdAt = ''t'', enabled = True\<rparr>)) = 2
   \<and> recordNumbers (Finite 2)
        (numbers (fitness
          \<lparr>name = ''P'', thought = ''T'', code = ''C'', generation = Generation 1,
          fitness = \<lparr>accuracy = 0, confidenceLow = 0, confidenceHigh = 0, evaluationCount = 0\<rparr>,
          id' = ''gen-1-1001'', createdAt = ''t'', enabled = True\<rparr>))
     = \<lparr>accuracy' = Finite 2, confidenceLow' = NaN, confidenceHigh' = NaN,
            evaluationCount' = 1\<rparr>"
proof -
  define a where "a = \<lparr>name = ''P'', thought = ''T'', code = ''C'', generation = Generation 1,
          fitness = \<lparr>accuracy = 0, confidenceLow = 0, confidenceHigh = 0, evaluationCount = 0\<rparr>,
          id' = ''gen-1-1001'', createdAt = ''t'', enabled = True\<rparr>"
  define f where "f = \<lparr>accuracy' = Finite 2, confidenceLow' = NaN, confidenceHigh' = NaN,
            evaluationCount' = 1\<rparr>"
  define vs where "vs = [JString ''x'', JNumber (Finite 1), JArray [JNull, JBoolean True]]"
  define r5 where "r5 = \<lparr>success = True, accuracy = 0.5, errors = [], duration = 1\<rparr>"
  define r2 where "r2 = \<lparr>success = True, accuracy = 2, errors = [], duration = 1\<rparr>"
  note claim = C9_round_trip [where ds = "[a]" and ds' = "[a]" and vs = vs
      and xs = "[(a, f)]" and a = a]
  have typed: "reload (map designValue [a]) = Some (map designValue [a])"
    using claim [where r = r5] by blast
  have plain: "list_all representable vs"
    by (simp add: vs_def)
  then have general: "reload vs = Some vs"
    using claim [where r = r5] by blast
  have "reload (map (\<lambda>(a, f). designObject a (fitnessObject f)) [(a, f)])
      = Some (map (\<lambda>(a, f). designObject a (readFitness f)) [(a, f)])"
    using claim [where r = r5] by blast
  then have reloaded: "reload [designObject a (fitnessObject f)]
      = Some [designObject a (JObject [(''accuracy'', JNumber (Finite 2)), (''confidenceLow'', JNull),
                     (''confidenceHigh'', JNull), (''evaluationCount'', JNumber (Finite 1))])]"
    by (simp add: readFitness_def readNumber_def f_def)
  have mean5: "Fitness.accuracy (fitness (recordEvaluation r5 a)) = 0.5"
    by (simp add: recordEvaluation_accuracy a_def r5_def)
  then have "0 \<le> Fitness.accuracy (fitness (recordEvaluation r5 a))
      \<and> Fitness.accuracy (fitness (recordEvaluation r5 a)) \<le> 1"
    by simp
  then have "recordNumbers (Finite (EvaluationResult.accuracy r5)) (numbers (fitness a))
      = numbers (fitness (recordEvaluation r5 a))"
    using claim [where r = r5] by blast
  then have inside: "recordNumbers (Finite 0.5) (numbers (fitness a))
      = numbers (fitness (recordEvaluation r5 a))"
    by (simp add: r5_def)
  have mean2: "Fitness.accuracy (fitness (recordEvaluation r2 a)) = 2"
    by (simp add: recordEvaluation_accuracy a_def r2_def)
  then have "Fitness.accuracy (fitness (recordEvaluation r2 a)) < 0
      \<or> 1 < Fitness.accuracy (fitness (recordEvaluation r2 a))"
    by simp
  then have "recordNumbers (Finite (EvaluationResult.accuracy r2)) (numbers (fitness a))
        = \<lparr>accuracy' = Finite (Fitness.accuracy (fitness (recordEvaluation r2 a))),
           confidenceLow' = NaN, confidenceHigh' = NaN,
           evaluationCount' = evaluationCount (fitness a) + 1\<rparr>"
    using claim [where r = r2] by blast
  then have outside: "recordNumbers (Finite 2) (numbers (fitness a)) = f"
    unfolding mean2 by (simp add: r2_def a_def f_def)
  from typed plain general reloaded mean5 inside mean2 outside show ?thesis
    unfolding a_def f_def vs_def r5_def r2_def by blast
qed

end
